theory Spec2Isabelle
  imports Main
begin

section \<open>Declarations the database routines rely on\<close>

text \<open>
  \<^verbatim>\<open>database.c\<close> includes \<^verbatim>\<open>FTL.h\<close>, \<^verbatim>\<open>shmem.h\<close> and \<^verbatim>\<open>sqlite3.h\<close>.
  The enumerations of \<^verbatim>\<open>FTL.h\<close> are taken as a parameter \<open>K\<close>: every
  statement below holds for whatever values the header gives them.
\<close>

record FTL_h =
  PRIVACY_MAXIMUM :: int
  PRIVACY_NOSTATS :: int
  TYPE_A :: int
  TYPE_AAAA :: int
  TYPE_MAX :: int
  QUERY_UNKNOWN :: int
  QUERY_GRAVITY :: int
  QUERY_FORWARDED :: int
  QUERY_CACHE :: int
  QUERY_WILDCARD :: int
  QUERY_BLACKLIST :: int
  QUERY_EXTERNAL_BLOCKED_IP :: int
  QUERY_EXTERNAL_BLOCKED_NULL :: int
  QUERY_EXTERNAL_BLOCKED_NXRA :: int
  DB_FAILED :: int
  DB_LASTTIMESTAMP :: int
  DB_TOTALQUERIES :: int
  DB_BLOCKEDQUERIES :: int
  MAGICBYTE :: int
  DNSSEC_UNKNOWN :: int
  REPLY_UNKNOWN :: int

text \<open>The fields of \<^verbatim>\<open>config\<close> that the routines read. \<open>config_debug_database\<close> is
  the test \<^verbatim>\<open>config.debug & DEBUG_DATABASE\<close>.\<close>

record ConfigStruct =
  config_privacylevel :: int
  config_debug_database :: bool
  config_maxDBdays :: int
  config_maxlogage :: int
  config_analyze_AAAA :: bool
  config_ignore_localhost :: bool

text \<open>Result codes of \<^verbatim>\<open>sqlite3.h\<close> and \<^verbatim>\<open>curl.h\<close>.\<close>

definition SQLITE_OK :: int where "SQLITE_OK = 0"
definition SQLITE_BUSY :: int where "SQLITE_BUSY = 5"
definition SQLITE_MISUSE :: int where "SQLITE_MISUSE = 21"
definition SQLITE_ROW :: int where "SQLITE_ROW = 100"
definition SQLITE_DONE :: int where "SQLITE_DONE = 101"
definition CURLE_OK :: int where "CURLE_OK = 0"

section \<open>Shared memory\<close>

text \<open>
  The arrays \<^verbatim>\<open>queries\<close>, \<^verbatim>\<open>clients\<close>, \<^verbatim>\<open>domains\<close> and \<^verbatim>\<open>overTime\<close> are
  functions from the index to the slot; \<^verbatim>\<open>counters->queries\<close> says how many slots of
  \<^verbatim>\<open>queries\<close> are in use. C integers are taken unbounded.
\<close>

record queriesData =
  magic :: int
  timestamp :: int
  timeidx :: int
  qtype :: int
  status :: int
  domainID :: int
  clientID :: int
  forwardID :: int
  db :: int
  id' :: int
  complete :: bool
  privacylevel :: int
  response :: int
  dnssec :: int
  reply :: int

record countersStruct =
  counters_queries :: int
  counters_unknown :: int
  counters_blocked :: int
  counters_forwardedqueries :: int
  counters_cached :: int
  counters_querytype :: "int \<Rightarrow> int"

record clientsData =
  clients_lastQuery :: int
  clients_numQueriesARP :: int
  clients_blockedcount :: int
  clients_overTime :: "int \<Rightarrow> int"

record domainsData =
  domains_blockedcount :: int

record overTimeData =
  overTime_total :: int
  overTime_blocked :: int
  overTime_forwarded :: int
  overTime_cached :: int
  overTime_querytypedata :: "int \<Rightarrow> int"

section \<open>The store\<close>

text \<open>
  The tables that \<^verbatim>\<open>db_create\<close> and \<^verbatim>\<open>create_counter_table\<close> set up: \<^verbatim>\<open>queries\<close>
  (\<open>id INTEGER PRIMARY KEY AUTOINCREMENT\<close>, five columns \<open>NOT NULL\<close> by schema and a
  nullable \<open>forward\<close>; the reading side still tests the text columns for NULL, so they
  are options here), \<^verbatim>\<open>ftl\<close> and \<^verbatim>\<open>counters\<close>. \<open>seq\<close> is the largest row
  identifier AUTOINCREMENT has handed out.
\<close>

record row =
  col_id :: int
  col_timestamp :: int
  col_type :: int
  col_status :: int
  col_domain :: "string option"
  col_client :: "string option"
  col_forward :: "string option"

record tables =
  rows :: "row list"
  seq :: int
  ftl :: "int \<Rightarrow> int option"
  counters_tbl :: "int \<Rightarrow> int option"

text \<open>The statements handed to \<^verbatim>\<open>dbquery\<close>, with their printf arguments.\<close>

datatype sql =
    BEGIN_TRANSACTION
  | END_TRANSACTION
  | DELETE_FROM_queries_WHERE_timestamp_le int
  | INSERT_OR_REPLACE_INTO_ftl int int
  | UPDATE_counters_SET_value_plus int int

text \<open>What leaves the process: log lines (format and integer arguments), lines on
  stderr, HTTP requests (URL and POST fields) and the calls into SQLite.\<close>

datatype event =
    Logg string "int list"
  | Stderr string
  | HttpPost string string
  | SqlOpen
  | SqlClose
  | SqlExec sql
  | SqlPrepare string
  | SqlStep
  | SqlFinalize

text \<open>
  The state: the globals of \<^verbatim>\<open>database.c\<close> (\<open>database\<close>, \<open>lastdbindex\<close>), the shared
  memory, the database file as the connection sees it (\<open>dbfile\<close>, with the snapshot
  \<open>txn\<close> to which an open transaction rolls back), whether the handle \<^verbatim>\<open>db\<close> is open
  (\<open>conn\<close>), the value of \<^verbatim>\<open>sqlite3_changes\<close>, and the events so far.
\<close>

record world =
  database :: bool
  lastdbindex :: int
  queries :: "int \<Rightarrow> queriesData"
  counters :: countersStruct
  clients :: "int \<Rightarrow> clientsData"
  domains :: "int \<Rightarrow> domainsData"
  overTime :: "int \<Rightarrow> overTimeData"
  dbfile :: tables
  txn :: "tables option"
  conn :: bool
  changes :: int
  trace :: "event list"

text \<open>
  What the routines get from outside: the clock, the result code of every SQLite and
  curl call (by call site; the row insertions and the curl calls by query index, the
  steps of the SELECT by their number), and the collaborators' functions.
  \<open>getstr_forwarded n\<close> is \<^verbatim>\<open>getstr(forwarded[n].ippos)\<close>.
\<close>

record environment =
  time_now :: int
  open_rc :: int
  max_id_prepare_rc :: int
  max_id_step_rc :: int
  begin_rc :: int
  insert_prepare_rc :: int
  insert_step_rc :: "int \<Rightarrow> int"
  end_rc :: int
  finalize_rc :: int
  set_property_rc :: int
  update_total_rc :: int
  update_blocked_rc :: int
  delete_rc :: int
  asprintf_rc :: int
  select_prepare_rc :: int
  select_error :: "nat \<Rightarrow> int"
  curl_easy_init :: "int \<Rightarrow> bool"
  curl_easy_perform :: "int \<Rightarrow> int"
  getDomainString :: "int \<Rightarrow> string"
  getClientIPString :: "int \<Rightarrow> string"
  getstr_forwarded :: "int \<Rightarrow> string"
  getOverTimeID :: "int \<Rightarrow> int"
  findDomainID :: "string \<Rightarrow> int"
  findClientID :: "string \<Rightarrow> int"
  findForwardID :: "string \<Rightarrow> int"

section \<open>SQLite as the routines use it\<close>

definition emit :: "event \<Rightarrow> world \<Rightarrow> world" where
  "emit e w = w\<lparr>trace := trace w @ [e]\<rparr>"

definition logg :: "string \<Rightarrow> int list \<Rightarrow> world \<Rightarrow> world" where
  "logg fmt args w = emit (Logg fmt args) w"

fun max_id :: "row list \<Rightarrow> int" where
  "max_id [] = 0"
| "max_id (r # rs) = fold (\<lambda>r m. max (col_id r) m) rs (col_id r)"

text \<open>An insertion with a NULL id gets the next AUTOINCREMENT identifier.\<close>

definition insert_row :: "int \<times> int \<times> int \<times> string \<times> string \<times> string option \<Rightarrow> tables \<Rightarrow> tables" where
  "insert_row b t =
     (case b of (ts, ty, st, dmn, cl, fwd) \<Rightarrow>
        let n = max (seq t) (max_id (rows t)) + 1
        in t\<lparr>rows := rows t @ [\<lparr>col_id = n, col_timestamp = ts, col_type = ty, col_status = st,
                                  col_domain = Some dmn, col_client = Some cl, col_forward = fwd\<rparr>],
              seq := n\<rparr>)"

fun run_sql :: "sql \<Rightarrow> world \<Rightarrow> world" where
  "run_sql BEGIN_TRANSACTION w = w\<lparr>txn := Some (dbfile w)\<rparr>"
| "run_sql END_TRANSACTION w = w\<lparr>txn := None\<rparr>"
| "run_sql (DELETE_FROM_queries_WHERE_timestamp_le t) w =
     w\<lparr>dbfile := (dbfile w)\<lparr>rows := filter (\<lambda>r. \<not> col_timestamp r \<le> t) (rows (dbfile w))\<rparr>,
       changes := int (length (filter (\<lambda>r. col_timestamp r \<le> t) (rows (dbfile w))))\<rparr>"
| "run_sql (INSERT_OR_REPLACE_INTO_ftl k v) w =
     w\<lparr>dbfile := (dbfile w)\<lparr>ftl := (ftl (dbfile w))(k \<mapsto> v)\<rparr>, changes := 1\<rparr>"
| "run_sql (UPDATE_counters_SET_value_plus d k) w =
     (case counters_tbl (dbfile w) k of
        None \<Rightarrow> w\<lparr>changes := 0\<rparr>
      | Some v \<Rightarrow> w\<lparr>dbfile := (dbfile w)\<lparr>counters_tbl := (counters_tbl (dbfile w))(k \<mapsto> v + d)\<rparr>,
                   changes := 1\<rparr>)"

text \<open>
  A call on a closed handle fails with \<open>SQLITE_MISUSE\<close> and does nothing; otherwise it
  returns the code the environment gives, and takes effect when that is the code of
  success. \<^verbatim>\<open>sqlite3_close\<close> succeeds, and rolls an open transaction back.
\<close>

definition sqlite3_exec :: "int \<Rightarrow> sql \<Rightarrow> world \<Rightarrow> int \<times> world" where
  "sqlite3_exec rc s w =
     (let w1 = emit (SqlExec s) w in
      if \<not> conn w1 then (SQLITE_MISUSE, w1)
      else if rc = SQLITE_OK then (rc, run_sql s w1)
      else (rc, w1))"

definition sqlite3_prepare_v2 :: "int \<Rightarrow> string \<Rightarrow> world \<Rightarrow> int \<times> world" where
  "sqlite3_prepare_v2 rc s w =
     (let w1 = emit (SqlPrepare s) w in
      if \<not> conn w1 then (SQLITE_MISUSE, w1) else (rc, w1))"

definition sqlite3_step_insert ::
  "int \<Rightarrow> int \<times> int \<times> int \<times> string \<times> string \<times> string option \<Rightarrow> world \<Rightarrow> int \<times> world" where
  "sqlite3_step_insert rc b w =
     (let w1 = emit SqlStep w in
      if \<not> conn w1 then (SQLITE_MISUSE, w1)
      else if rc = SQLITE_DONE then (rc, w1\<lparr>dbfile := insert_row b (dbfile w1), changes := 1\<rparr>)
      else (rc, w1))"

definition sqlite3_close :: "world \<Rightarrow> world" where
  "sqlite3_close w =
     (emit SqlClose w)\<lparr>dbfile := (case txn w of None \<Rightarrow> dbfile w | Some t \<Rightarrow> t),
                        txn := None, conn := False\<rparr>"

section \<open>The routines of database.c\<close>

definition check_database :: "int \<Rightarrow> world \<Rightarrow> world" where
  "check_database rc w =
     (if rc \<noteq> SQLITE_OK \<and> rc \<noteq> SQLITE_DONE \<and> rc \<noteq> SQLITE_ROW \<and> rc \<noteq> SQLITE_BUSY
      then (logg ''check_database(%i): Disabling database connection due to error'' [rc] w)
             \<lparr>database := False\<rparr>
      else w)"

definition dbclose :: "world \<Rightarrow> world" where
  "dbclose w = sqlite3_close w"

definition dbopen :: "environment \<Rightarrow> world \<Rightarrow> bool \<times> world" where
  "dbopen E w =
     (let rc = open_rc E; w1 = emit SqlOpen w in
      if rc \<noteq> 0 then
        (False, check_database rc (dbclose (logg ''dbopen() - SQL error (%i): %s'' [rc] w1)))
      else (True, w1\<lparr>conn := True\<rparr>))"

definition dbquery :: "ConfigStruct \<Rightarrow> int \<Rightarrow> sql \<Rightarrow> world \<Rightarrow> bool \<times> world" where
  "dbquery cfg rc0 s w =
     (let w1 = (if config_debug_database cfg then logg ''dbquery: %s'' [] w else w);
          (rc, w2) = sqlite3_exec rc0 s w1
      in if rc \<noteq> SQLITE_OK then
           (False, check_database rc (logg ''dbquery(%s) - SQL error (%i): %s'' [rc] w2))
         else (True, w2))"

definition db_set_FTL_property :: "ConfigStruct \<Rightarrow> environment \<Rightarrow> int \<Rightarrow> int \<Rightarrow> world \<Rightarrow> bool \<times> world" where
  "db_set_FTL_property cfg E ID v w =
     dbquery cfg (set_property_rc E) (INSERT_OR_REPLACE_INTO_ftl ID v) w"

definition db_update_counters ::
  "FTL_h \<Rightarrow> ConfigStruct \<Rightarrow> environment \<Rightarrow> int \<Rightarrow> int \<Rightarrow> world \<Rightarrow> bool \<times> world" where
  "db_update_counters K cfg E tot blk w =
     (let (ok1, w1) = dbquery cfg (update_total_rc E)
                        (UPDATE_counters_SET_value_plus tot (DB_TOTALQUERIES K)) w
      in if \<not> ok1 then (False, w1)
         else let (ok2, w2) = dbquery cfg (update_blocked_rc E)
                                (UPDATE_counters_SET_value_plus blk (DB_BLOCKEDQUERIES K)) w1
              in if \<not> ok2 then (False, w2) else (True, w2))"

definition last_ID_in_DB :: "FTL_h \<Rightarrow> environment \<Rightarrow> world \<Rightarrow> int \<times> world" where
  "last_ID_in_DB K E w =
     (let (rc, w1) = sqlite3_prepare_v2 (max_id_prepare_rc E) ''SELECT MAX(ID) FROM queries'' w
      in if rc \<noteq> 0 then
           (DB_FAILED K,
            check_database rc
              (dbclose (logg ''last_ID_in_DB() - SQL error prepare (%i): %s'' [rc] w1)))
         else
           let w2 = emit SqlStep w1;
               rc = (if conn w2 then max_id_step_rc E else SQLITE_MISUSE)
           in if rc \<noteq> SQLITE_ROW then
                (DB_FAILED K,
                 check_database rc
                   (dbclose (logg ''last_ID_in_DB() - SQL error step (%i): %s'' [rc] w2)))
              else (max_id (rows (dbfile w2)), emit SqlFinalize w2))"

text \<open>
  \<^verbatim>\<open>save_to_DB\<close>. Its locals are a record; one turn of its \<^verbatim>\<open>for\<close> loop is
  \<open>save_body\<close>, which returns whether the loop goes on (\<^verbatim>\<open>continue\<close>, or the end of
  the body) or stops (\<^verbatim>\<open>break\<close>). \<^verbatim>\<open>strcat\<close> into \<^verbatim>\<open>param[1000]\<close> is the
  concatenation of the strings (longer strings overflow the buffer in C).
\<close>

record flush_locals =
  saved :: nat
  saved_error :: nat
  lastID :: int
  total' :: int
  blocked :: int
  newlasttimestamp :: int

definition curl_post :: "environment \<Rightarrow> int \<Rightarrow> string \<Rightarrow> world \<Rightarrow> world" where
  "curl_post E i param w =
     (if curl_easy_init E i then
        let w1 = emit (HttpPost ''http://192.168.41.95/categorise.php'' param) w;
            res = curl_easy_perform E i
        in if res \<noteq> CURLE_OK then emit (Stderr ''curl_easy_perform() failed: %s'') w1 else w1
      else w)"

definition is_blocked_status :: "FTL_h \<Rightarrow> int \<Rightarrow> bool" where
  "is_blocked_status K s \<longleftrightarrow>
     s = QUERY_GRAVITY K \<or> s = QUERY_BLACKLIST K \<or> s = QUERY_WILDCARD K \<or>
     s = QUERY_EXTERNAL_BLOCKED_IP K \<or> s = QUERY_EXTERNAL_BLOCKED_NULL K \<or>
     s = QUERY_EXTERNAL_BLOCKED_NXRA K"

definition bindings ::
  "FTL_h \<Rightarrow> environment \<Rightarrow> int \<Rightarrow> queriesData \<Rightarrow> int \<times> int \<times> int \<times> string \<times> string \<times> string option" where
  "bindings K E i q =
     (timestamp q, qtype q, status q, getDomainString E i, getClientIPString E i,
      if status q = QUERY_FORWARDED K \<and> forwardID q > - 1
      then Some (getstr_forwarded E (forwardID q)) else None)"

definition save_body ::
  "FTL_h \<Rightarrow> environment \<Rightarrow> int \<Rightarrow> int \<Rightarrow> flush_locals \<times> world \<Rightarrow> bool \<times> flush_locals \<times> world" where
  "save_body K E currenttimestamp i Lw =
     (case Lw of (L, w) \<Rightarrow>
        let q = queries w i in
        if db q \<noteq> 0 then (True, L, w)
        else if \<not> complete q \<and> timestamp q > currenttimestamp - 2 then (False, L, w)
        else if privacylevel q \<ge> PRIVACY_MAXIMUM K then (True, L, w)
        else
          let domain = getDomainString E i;
              client = getClientIPString E i;
              w1 = curl_post E i (''url='' @ domain @ ''&request_ip='' @ client) w;
              (rc, w2) = sqlite3_step_insert (insert_step_rc E i) (bindings K E i q) w1
          in if rc \<noteq> SQLITE_DONE then
               let w3 = logg ''save_to_DB() - SQL error (%i): %s'' [rc] w2;
                   L1 = L\<lparr>saved_error := saved_error L + 1\<rparr>
               in if saved_error L1 < 3 then (True, L1, w3)
                  else (False, L1, logg ''save_to_DB() - exiting due to too many errors'' [] w3)
             else
               let L1 = L\<lparr>saved := saved L + 1, lastID := lastID L + 1\<rparr>;
                   w3 = w2\<lparr>queries := (queries w2)(i := (queries w2 i)\<lparr>db := lastID L1\<rparr>)\<rparr>;
                   L2 = L1\<lparr>total' := total' L1 + 1,
                          blocked := (if is_blocked_status K (status (queries w3 i))
                                      then blocked L1 + 1 else blocked L1),
                          newlasttimestamp := (if timestamp (queries w3 i) > newlasttimestamp L1
                                               then timestamp (queries w3 i)
                                               else newlasttimestamp L1)\<rparr>
               in (True, L2, w3))"

lemma save_body_counters: "counters (snd (snd (save_body K E now i Lw))) = counters (snd Lw)"
  by (cases Lw)
     (simp add: save_body_def Let_def curl_post_def sqlite3_step_insert_def emit_def logg_def
           split: prod.splits)

function save_loop ::
  "FTL_h \<Rightarrow> environment \<Rightarrow> int \<Rightarrow> int \<Rightarrow> flush_locals \<times> world \<Rightarrow> int \<times> flush_locals \<times> world" where
  "save_loop K E currenttimestamp i Lw =
     (if i < counters_queries (counters (snd Lw)) then
        let r = save_body K E currenttimestamp i Lw
        in if fst r then save_loop K E currenttimestamp (i + 1) (snd r) else (i, snd r)
      else (i, Lw))"
  by pat_completeness auto
termination
  by (relation "measure (\<lambda>(K, E, now, i, Lw). nat (counters_queries (counters (snd Lw)) - i))")
     (simp_all add: save_body_counters)

declare save_loop.simps [simp del]

text \<open>The part of \<^verbatim>\<open>save_to_DB\<close> after the loop, from \<^verbatim>\<open>END TRANSACTION\<close> on.\<close>

definition save_finish ::
  "FTL_h \<Rightarrow> ConfigStruct \<Rightarrow> environment \<Rightarrow> int \<times> flush_locals \<times> world \<Rightarrow> world" where
  "save_finish K cfg E r =
     (case r of (i, L, w5) \<Rightarrow>
        let (ret, w6) = dbquery cfg (end_rc E) END_TRANSACTION w5;
            w7 = emit SqlFinalize w6;
            ret2 = (if conn w7 then finalize_rc E else SQLITE_MISUSE)
        in if \<not> ret \<or> ret2 \<noteq> SQLITE_OK then dbclose w7
           else
             let w8 = (if saved L > 0 \<and> saved_error L = 0
                       then snd (db_set_FTL_property cfg E (DB_LASTTIMESTAMP K)
                                   (newlasttimestamp L) (w7\<lparr>lastdbindex := i\<rparr>))
                       else w7);
                 (upd, w9) = (if saved L > 0
                              then db_update_counters K cfg E (total' L) (blocked L) w8
                              else (True, w8))
             in if saved L > 0 \<and> \<not> upd then dbclose w9
                else
                  let w10 = dbclose w9
                  in if config_debug_database cfg then
                       let w11 = logg ''Notice: Queries stored in DB: %u (took %.1f ms, last SQLite ID %llu)''
                                   [int (saved L), lastID L] w10
                       in if saved_error L > 0
                          then logg ''        There are queries that have not been saved'' [] w11
                          else w11
                     else w10)"

text \<open>
  \<^verbatim>\<open>save_to_DB\<close> returns nothing; the model returns, next to the new state, the loop
  index and the locals with which the function ended when it got as far as the loop.
\<close>

definition save_to_DB ::
  "FTL_h \<Rightarrow> ConfigStruct \<Rightarrow> environment \<Rightarrow> world \<Rightarrow> (int \<times> flush_locals) option \<times> world" where
  "save_to_DB K cfg E w =
     (if config_privacylevel cfg \<ge> PRIVACY_NOSTATS K then (None, w)
      else
        let (ok, w1) = dbopen E w in
        if \<not> ok then (None, logg ''save_to_DB() - failed to open DB'' [] w1)
        else
          let (lastID0, w2) = last_ID_in_DB K E w1;
              (ret, w3) = dbquery cfg (begin_rc E) BEGIN_TRANSACTION w2
          in if \<not> ret then
               (None, dbclose (logg ''save_to_DB() - unable to begin transaction (%i): %s'' [0] w3))
             else
               let (rc, w4) = sqlite3_prepare_v2 (insert_prepare_rc E)
                                ''INSERT INTO queries VALUES (NULL,?,?,?,?,?,?)'' w3
               in if rc \<noteq> 0 then
                    (None, check_database rc
                       (dbclose (logg ''save_to_DB() - error in preparing SQL statement (%i): %s'' [1] w4)))
                  else
                    let L0 = \<lparr>saved = 0, saved_error = 0, lastID = lastID0, total' = 0,
                              blocked = 0, newlasttimestamp = 0\<rparr>;
                        currenttimestamp = time_now E;
                        r = save_loop K E currenttimestamp (max 0 (lastdbindex w4)) (L0, w4)
                    in (Some (fst r, fst (snd r)), save_finish K cfg E r))"


text \<open>
  \<^verbatim>\<open>read_data_from_DB\<close>. \<open>import_store\<close> is the part of the loop body after the
  filters, in five steps: the fields of the new slot, the client's last query, the type
  counters, the totals with \<^verbatim>\<open>counters->queries++\<close>, and the \<^verbatim>\<open>switch\<close> on the
  status. \<open>import_row\<close> is the whole body for one row of the result, \<open>import_loop\<close> the
  \<^verbatim>\<open>while\<close> loop over the rows the SELECT yields: step number \<open>n\<close> returns the
  code the environment injects, or \<open>SQLITE_ROW\<close> while rows are left and
  \<open>SQLITE_DONE\<close> after the last.
\<close>

definition set_query_slot ::
  "FTL_h \<Rightarrow> int \<Rightarrow> int \<Rightarrow> int \<Rightarrow> int \<Rightarrow> int \<Rightarrow> int \<Rightarrow> int \<Rightarrow> int \<Rightarrow> int \<Rightarrow> world \<Rightarrow> world" where
  "set_query_slot K queryIndex queryTimeStamp typ stat dID cID fID tidx dbid w =
     w\<lparr>queries := (queries w)(queryIndex := (queries w queryIndex)
         \<lparr>magic := MAGICBYTE K, timestamp := queryTimeStamp, timeidx := tidx,
          qtype := typ, status := stat, domainID := dID, clientID := cID,
          forwardID := fID, db := dbid, id' := 0, complete := True,
          response := 0, dnssec := DNSSEC_UNKNOWN K, reply := REPLY_UNKNOWN K\<rparr>)\<rparr>"

definition count_client :: "int \<Rightarrow> int \<Rightarrow> world \<Rightarrow> world" where
  "count_client cID queryTimeStamp w =
     w\<lparr>clients := (clients w)(cID := (clients w cID)
         \<lparr>clients_lastQuery := queryTimeStamp,
          clients_numQueriesARP := clients_numQueriesARP (clients w cID) + 1\<rparr>)\<rparr>"

definition count_type :: "FTL_h \<Rightarrow> int \<Rightarrow> int \<Rightarrow> world \<Rightarrow> world" where
  "count_type K typ tidx w =
     (if typ \<ge> TYPE_A K \<and> typ < TYPE_MAX K then
        w\<lparr>counters := (counters w)\<lparr>counters_querytype :=
                (counters_querytype (counters w))
                  (typ - 1 := counters_querytype (counters w) (typ - 1) + 1)\<rparr>,
          overTime := (overTime w)(tidx := (overTime w tidx)
                \<lparr>overTime_querytypedata := (overTime_querytypedata (overTime w tidx))
                  (typ - 1 := overTime_querytypedata (overTime w tidx) (typ - 1) + 1)\<rparr>)\<rparr>
      else w)"

definition count_overTime :: "int \<Rightarrow> int \<Rightarrow> world \<Rightarrow> world" where
  "count_overTime tidx cID w =
     w\<lparr>overTime := (overTime w)(tidx := (overTime w tidx)
         \<lparr>overTime_total := overTime_total (overTime w tidx) + 1\<rparr>),
       clients := (clients w)(cID := (clients w cID)
         \<lparr>clients_overTime := (clients_overTime (clients w cID))
            (tidx := clients_overTime (clients w cID) tidx + 1)\<rparr>),
       counters := (counters w)\<lparr>counters_queries := counters_queries (counters w) + 1\<rparr>\<rparr>"

definition count_status :: "FTL_h \<Rightarrow> int \<Rightarrow> int \<Rightarrow> int \<Rightarrow> int \<Rightarrow> int \<Rightarrow> world \<Rightarrow> world" where
  "count_status K stat dID cID tidx queryTimeStamp w =
     (if stat = QUERY_UNKNOWN K then
        w\<lparr>counters := (counters w)\<lparr>counters_unknown := counters_unknown (counters w) + 1\<rparr>\<rparr>
      else if stat = QUERY_GRAVITY K \<or> stat = QUERY_WILDCARD K \<or> stat = QUERY_BLACKLIST K \<or>
              stat = QUERY_EXTERNAL_BLOCKED_IP K \<or> stat = QUERY_EXTERNAL_BLOCKED_NULL K \<or>
              stat = QUERY_EXTERNAL_BLOCKED_NXRA K then
        w\<lparr>counters := (counters w)\<lparr>counters_blocked := counters_blocked (counters w) + 1\<rparr>,
          domains := (domains w)(dID := (domains w dID)
             \<lparr>domains_blockedcount := domains_blockedcount (domains w dID) + 1\<rparr>),
          clients := (clients w)(cID := (clients w cID)
             \<lparr>clients_blockedcount := clients_blockedcount (clients w cID) + 1\<rparr>),
          overTime := (overTime w)(tidx := (overTime w tidx)
             \<lparr>overTime_blocked := overTime_blocked (overTime w tidx) + 1\<rparr>)\<rparr>
      else if stat = QUERY_FORWARDED K then
        w\<lparr>counters := (counters w)
              \<lparr>counters_forwardedqueries := counters_forwardedqueries (counters w) + 1\<rparr>,
          overTime := (overTime w)(tidx := (overTime w tidx)
             \<lparr>overTime_forwarded := overTime_forwarded (overTime w tidx) + 1\<rparr>)\<rparr>
      else if stat = QUERY_CACHE K then
        w\<lparr>counters := (counters w)\<lparr>counters_cached := counters_cached (counters w) + 1\<rparr>,
          overTime := (overTime w)(tidx := (overTime w tidx)
             \<lparr>overTime_cached := overTime_cached (overTime w tidx) + 1\<rparr>)\<rparr>
      else
        logg ''       Continuing anyway...'' []
          (logg ''       Timestamp: %li'' [queryTimeStamp]
             (logg ''Error: Found unknown status %i in long term database!'' [stat] w)))"

definition import_store ::
  "FTL_h \<Rightarrow> environment \<Rightarrow> int \<Rightarrow> int \<Rightarrow> int \<Rightarrow> int \<Rightarrow> string \<Rightarrow> string \<Rightarrow> int \<Rightarrow> world \<Rightarrow> world" where
  "import_store K E dbid queryTimeStamp typ stat domain client fID w =
     (let tidx = getOverTimeID E queryTimeStamp;
          dID = findDomainID E domain;
          cID = findClientID E client;
          queryIndex = counters_queries (counters w)
      in count_status K stat dID cID tidx queryTimeStamp
           (count_overTime tidx cID
              (count_type K typ tidx
                 (count_client cID queryTimeStamp
                    (set_query_slot K queryIndex queryTimeStamp typ stat dID cID fID tidx dbid w)))))"

definition import_row :: "FTL_h \<Rightarrow> ConfigStruct \<Rightarrow> environment \<Rightarrow> int \<Rightarrow> row \<Rightarrow> world \<Rightarrow> world" where
  "import_row K cfg E now r w =
     (let dbid = col_id r; queryTimeStamp = col_timestamp r in
      if queryTimeStamp < 1483228800 then
        logg ''DB warn: TIMESTAMP should be larger than 01/01/2017 but is %li'' [queryTimeStamp] w
      else if queryTimeStamp > now then
        (if config_debug_database cfg
         then logg ''DB warn: Skipping query logged in the future (%li)'' [queryTimeStamp] w
         else w)
      else
        let typ = col_type r in
        if typ < TYPE_A K \<or> typ \<ge> TYPE_MAX K then
          logg ''DB warn: TYPE should not be %i'' [typ] w
        else if typ = TYPE_AAAA K \<and> \<not> config_analyze_AAAA cfg then w
        else
          let stat = col_status r in
          if stat < QUERY_UNKNOWN K \<or> stat > QUERY_EXTERNAL_BLOCKED_NXRA K then
            logg ''DB warn: STATUS should be within [%i,%i] but is %i''
              [QUERY_UNKNOWN K, QUERY_EXTERNAL_BLOCKED_NXRA K, stat] w
          else
            (case col_domain r of
               None \<Rightarrow> logg ''DB warn: DOMAIN should never be NULL, %li'' [queryTimeStamp] w
             | Some domain \<Rightarrow>
                (case col_client r of
                   None \<Rightarrow> logg ''DB warn: CLIENT should never be NULL, %li'' [queryTimeStamp] w
                 | Some client \<Rightarrow>
                     if config_ignore_localhost cfg \<and> (client = ''127.0.0.1'' \<or> client = ''::1'')
                     then w
                     else
                       let forwarddest = col_forward r in
                       if stat = QUERY_FORWARDED K \<and> forwarddest = None then
                         logg ''DB warn: FORWARD should not be NULL with status QUERY_FORWARDED, %li''
                           [queryTimeStamp] w
                       else
                         let fID = (case forwarddest of
                                            Some f \<Rightarrow> if stat = QUERY_FORWARDED K
                                                      then findForwardID E f else 0
                                          | None \<Rightarrow> 0)
                         in import_store K E dbid queryTimeStamp typ stat domain client
                              fID w)))"

definition sqlite3_step_select :: "environment \<Rightarrow> nat \<Rightarrow> bool \<Rightarrow> world \<Rightarrow> int \<times> world" where
  "sqlite3_step_select E n avail w =
     (let w1 = emit SqlStep w; e = select_error E n in
      if \<not> conn w1 then (SQLITE_MISUSE, w1)
      else if e = SQLITE_OK \<or> e = SQLITE_ROW
           then (if avail then SQLITE_ROW else SQLITE_DONE, w1)
           else (e, w1))"

fun import_loop ::
  "FTL_h \<Rightarrow> ConfigStruct \<Rightarrow> environment \<Rightarrow> int \<Rightarrow> nat \<Rightarrow> row list \<Rightarrow> world \<Rightarrow> int \<times> world" where
  "import_loop K cfg E now n [] w = sqlite3_step_select E n False w"
| "import_loop K cfg E now n (r # rs) w =
     (let rcw = sqlite3_step_select E n True w in
      if fst rcw = SQLITE_ROW
      then import_loop K cfg E now (n + 1) rs (import_row K cfg E now r (snd rcw))
      else rcw)"

definition read_data_from_DB :: "FTL_h \<Rightarrow> ConfigStruct \<Rightarrow> environment \<Rightarrow> world \<Rightarrow> world" where
  "read_data_from_DB K cfg E w =
     (if config_privacylevel cfg \<ge> PRIVACY_NOSTATS K then w
      else
        let (ok, w1) = dbopen E w in
        if \<not> ok then logg ''read_data_from_DB() - Failed to open DB'' [] w1
        else
          let now = time_now E;
              mintime = now - config_maxlogage cfg;
              rc0 = asprintf_rc E
          in if rc0 < 1 then logg ''read_data_from_DB() - Allocation error (%i): %s'' [rc0] w1
             else
               let w2 = (if config_debug_database cfg then logg ''%s'' [] w1 else w1);
                   (rc1, w3) = sqlite3_prepare_v2 (select_prepare_rc E)
                                 ''SELECT * FROM queries WHERE timestamp >= %li'' w2
               in if rc1 \<noteq> 0 then
                    check_database rc1
                      (dbclose (logg ''read_data_from_DB() - SQL error prepare (%i): %s'' [rc1] w3))
                  else
                    let (rc, w4) = import_loop K cfg E now 0
                                     (filter (\<lambda>r. col_timestamp r \<ge> mintime) (rows (dbfile w3))) w3;
                        w5 = logg ''Imported %i queries from the long-term database''
                               [counters_queries (counters w4)] w4;
                        w6 = w5\<lparr>lastdbindex := counters_queries (counters w5)\<rparr>
                    in if rc \<noteq> SQLITE_DONE then
                         check_database rc
                           (dbclose (logg ''read_data_from_DB() - SQL error step (%i): %s'' [rc] w6))
                       else dbclose (emit SqlFinalize w6))"

section \<open>Notions for stating the properties\<close>

text \<open>
  The three ways the loop of \<^verbatim>\<open>save_to_DB\<close> treats a record before it touches the
  store: it passes over it (already saved, or recorded at maximum privacy), it stops at it
  (not saved, not complete and younger than two seconds), or it binds and inserts it.
\<close>

definition passed_over :: "FTL_h \<Rightarrow> int \<Rightarrow> queriesData \<Rightarrow> bool" where
  "passed_over K now q \<longleftrightarrow>
     db q \<noteq> 0 \<or> (complete q \<or> timestamp q \<le> now - 2) \<and> privacylevel q \<ge> PRIVACY_MAXIMUM K"

definition deferred :: "int \<Rightarrow> queriesData \<Rightarrow> bool" where
  "deferred now q \<longleftrightarrow> db q = 0 \<and> \<not> complete q \<and> timestamp q > now - 2"

definition eligible :: "FTL_h \<Rightarrow> int \<Rightarrow> queriesData \<Rightarrow> bool" where
  "eligible K now q \<longleftrightarrow>
     db q = 0 \<and> (complete q \<or> timestamp q \<le> now - 2) \<and> privacylevel q < PRIVACY_MAXIMUM K"

text \<open>The events of the curl block for query \<open>i\<close>.\<close>

definition curl_events :: "environment \<Rightarrow> int \<Rightarrow> event list" where
  "curl_events E i =
     (if curl_easy_init E i then
        HttpPost ''http://192.168.41.95/categorise.php''
          (''url='' @ getDomainString E i @ ''&request_ip='' @ getClientIPString E i) #
        (if curl_easy_perform E i \<noteq> CURLE_OK then [Stderr ''curl_easy_perform() failed: %s''] else [])
      else [])"

fun is_sqlite_call :: "event \<Rightarrow> bool" where
  "is_sqlite_call (Logg f a) = False"
| "is_sqlite_call (Stderr m) = False"
| "is_sqlite_call (HttpPost u p) = False"
| "is_sqlite_call e = True"

fun is_http :: "event \<Rightarrow> bool" where
  "is_http (HttpPost u p) = True"
| "is_http e = False"

text \<open>
  The scan as the specification describes it, over the indices \<open>js\<close> still to visit and
  with \<open>errs\<close> failures counted so far: the indices whose rows are inserted, and the
  failure count at the end. A failed insertion is counted and the scan goes on, unless
  that was the third failure.
\<close>

fun flush_scan ::
  "FTL_h \<Rightarrow> environment \<Rightarrow> int \<Rightarrow> (int \<Rightarrow> queriesData) \<Rightarrow> nat \<Rightarrow> int list \<Rightarrow> int list \<times> nat" where
  "flush_scan K E now Q errs [] = ([], errs)"
| "flush_scan K E now Q errs (i # js) =
     (if db (Q i) \<noteq> 0 then flush_scan K E now Q errs js
      else if \<not> complete (Q i) \<and> timestamp (Q i) > now - 2 then ([], errs)
      else if privacylevel (Q i) \<ge> PRIVACY_MAXIMUM K then flush_scan K E now Q errs js
      else if insert_step_rc E i = SQLITE_DONE
           then (i # fst (flush_scan K E now Q errs js), snd (flush_scan K E now Q errs js))
      else if errs + 1 < 3 then flush_scan K E now Q (errs + 1) js
      else ([], errs + 1))"


fun first_index :: "(int \<Rightarrow> bool) \<Rightarrow> int \<Rightarrow> int list \<Rightarrow> int" where
  "first_index P n [] = n"
| "first_index P n (j # js) = (if P j then j else first_index P n js)"

text \<open>The indices the loop of a flush started in \<open>w\<close> runs over.\<close>

definition to_scan :: "world \<Rightarrow> int list" where
  "to_scan w = [max 0 (lastdbindex w)..counters_queries (counters w) - 1]"

text \<open>\<^verbatim>\<open>save_to_DB\<close> gets as far as its loop exactly under \<open>scan_reached\<close>; \<open>flush_start\<close>
  is the state in which the loop then starts.\<close>

definition scan_reached :: "FTL_h \<Rightarrow> ConfigStruct \<Rightarrow> environment \<Rightarrow> bool" where
  "scan_reached K cfg E \<longleftrightarrow>
     config_privacylevel cfg < PRIVACY_NOSTATS K \<and> open_rc E = 0 \<and> max_id_prepare_rc E = 0 \<and>
     max_id_step_rc E = SQLITE_ROW \<and> begin_rc E = SQLITE_OK \<and> insert_prepare_rc E = 0"

definition flush_start :: "ConfigStruct \<Rightarrow> world \<Rightarrow> world" where
  "flush_start cfg w =
     w\<lparr>txn := Some (dbfile w), conn := True,
       trace := trace w @
         [SqlOpen, SqlPrepare ''SELECT MAX(ID) FROM queries'', SqlStep, SqlFinalize] @
         (if config_debug_database cfg then [Logg ''dbquery: %s'' []] else []) @
         [SqlExec BEGIN_TRANSACTION, SqlPrepare ''INSERT INTO queries VALUES (NULL,?,?,?,?,?,?)'']\<rparr>"

text \<open>The records a flush writes: those whose insertion succeeds.\<close>

definition written :: "FTL_h \<Rightarrow> ConfigStruct \<Rightarrow> environment \<Rightarrow> world \<Rightarrow> int list" where
  "written K cfg E w =
     (if scan_reached K cfg E
      then fst (flush_scan K E (time_now E) (queries w) 0 (to_scan w)) else [])"




text \<open>When the import passes over a row, as the code has it (\<open>import_skips\<close>) and as the
  specification words it (\<open>claimed_skip\<close>, where a text column is empty if it is NULL or
  the empty string).\<close>

definition import_skips :: "FTL_h \<Rightarrow> ConfigStruct \<Rightarrow> int \<Rightarrow> row \<Rightarrow> bool" where
  "import_skips K cfg now r \<longleftrightarrow>
     col_timestamp r < 1483228800 \<or> col_timestamp r > now \<or>
     col_type r < TYPE_A K \<or> col_type r \<ge> TYPE_MAX K \<or>
     col_type r = TYPE_AAAA K \<and> \<not> config_analyze_AAAA cfg \<or>
     col_status r < QUERY_UNKNOWN K \<or> col_status r > QUERY_EXTERNAL_BLOCKED_NXRA K \<or>
     col_domain r = None \<or> col_client r = None \<or>
     config_ignore_localhost cfg \<and> (col_client r = Some ''127.0.0.1'' \<or> col_client r = Some ''::1'') \<or>
     col_status r = QUERY_FORWARDED K \<and> col_forward r = None"


text \<open>The skips that log nothing: a row from the future outside debug mode, an AAAA row
  while AAAA analysis is off, a row of a loopback client.\<close>

definition silent_skip :: "FTL_h \<Rightarrow> ConfigStruct \<Rightarrow> int \<Rightarrow> row \<Rightarrow> bool" where
  "silent_skip K cfg now r \<longleftrightarrow>
     col_timestamp r \<ge> 1483228800 \<and>
     (col_timestamp r > now \<and> \<not> config_debug_database cfg \<or>
      col_timestamp r \<le> now \<and> col_type r \<ge> TYPE_A K \<and> col_type r < TYPE_MAX K \<and>
      (col_type r = TYPE_AAAA K \<and> \<not> config_analyze_AAAA cfg \<or>
       col_status r \<ge> QUERY_UNKNOWN K \<and> col_status r \<le> QUERY_EXTERNAL_BLOCKED_NXRA K \<and>
       col_domain r \<noteq> None \<and> col_client r \<noteq> None \<and> config_ignore_localhost cfg \<and>
       (col_client r = Some ''127.0.0.1'' \<or> col_client r = Some ''::1'')))"

text \<open>The locals of \<^verbatim>\<open>save_to_DB\<close> when its loop starts.\<close>

definition L_start :: "world \<Rightarrow> flush_locals" where
  "L_start w = \<lparr>saved = 0, saved_error = 0, lastID = max_id (rows (dbfile w)), total' = 0,
                blocked = 0, newlasttimestamp = 0\<rparr>"

text \<open>Two logs agree from index \<open>i\<close> on.\<close>

definition agree_from :: "int \<Rightarrow> (int \<Rightarrow> queriesData) \<Rightarrow> (int \<Rightarrow> queriesData) \<Rightarrow> bool" where
  "agree_from i F Q \<longleftrightarrow> (\<forall>j. i \<le> j \<longrightarrow> F j = Q j)"

text \<open>\<^verbatim>\<open>UPDATE counters SET value = value + d WHERE id = k\<close> on the counter table: a
  missing key is left missing.\<close>

definition bump :: "(int \<Rightarrow> int option) \<Rightarrow> int \<Rightarrow> int \<Rightarrow> (int \<Rightarrow> int option)" where
  "bump tbl k d = (case tbl k of None \<Rightarrow> tbl | Some v \<Rightarrow> tbl(k \<mapsto> v + d))"

text \<open>An in-memory record that carries the id, timestamp, type and status of a row of
  the store, and is complete.\<close>

definition mirrors :: "queriesData \<Rightarrow> row \<Rightarrow> bool" where
  "mirrors q r \<longleftrightarrow>
     db q = col_id r \<and> timestamp q = col_timestamp r \<and> qtype q = col_type r \<and>
     status q = col_status r \<and> complete q"

text \<open>\<^verbatim>\<open>read_data_from_DB\<close> gets as far as its loop exactly under \<open>import_scans\<close>;
  \<open>selected\<close> are the rows its SELECT yields, \<open>import_start\<close> the state in which the
  loop starts.\<close>

definition import_scans :: "FTL_h \<Rightarrow> ConfigStruct \<Rightarrow> environment \<Rightarrow> bool" where
  "import_scans K cfg E \<longleftrightarrow>
     config_privacylevel cfg < PRIVACY_NOSTATS K \<and> open_rc E = 0 \<and> 1 \<le> asprintf_rc E \<and>
     select_prepare_rc E = 0"

text \<open>The rows not older than \<^verbatim>\<open>config.maxlogage\<close>.\<close>

definition selected :: "ConfigStruct \<Rightarrow> environment \<Rightarrow> world \<Rightarrow> row list" where
  "selected cfg E w = filter (\<lambda>r. col_timestamp r \<ge> time_now E - config_maxlogage cfg) (rows (dbfile w))"

text \<open>The state after the store is opened and the SELECT prepared.\<close>

definition import_start :: "ConfigStruct \<Rightarrow> world \<Rightarrow> world" where
  "import_start cfg w =
     w\<lparr>conn := True,
       trace := trace w @ [SqlOpen] @ (if config_debug_database cfg then [Logg ''%s'' []] else []) @
                [SqlPrepare ''SELECT * FROM queries WHERE timestamp >= %li'']\<rparr>"

section \<open>A sample configuration\<close>

text \<open>The enumerations with the values of Pi-hole's \<^verbatim>\<open>FTL.h\<close>, a configuration, an
  environment in which every call succeeds, and an empty log over an empty store. They
  serve to evaluate the routines on examples.\<close>

definition K0 :: FTL_h where
  "K0 = \<lparr>PRIVACY_MAXIMUM = 3, PRIVACY_NOSTATS = 4, TYPE_A = 1, TYPE_AAAA = 2, TYPE_MAX = 8,
     QUERY_UNKNOWN = 0, QUERY_GRAVITY = 1, QUERY_FORWARDED = 2, QUERY_CACHE = 3, QUERY_WILDCARD = 4,
     QUERY_BLACKLIST = 5, QUERY_EXTERNAL_BLOCKED_IP = 6, QUERY_EXTERNAL_BLOCKED_NULL = 7,
     QUERY_EXTERNAL_BLOCKED_NXRA = 8, DB_FAILED = - 2, DB_LASTTIMESTAMP = 1, DB_TOTALQUERIES = 0,
     DB_BLOCKEDQUERIES = 1, MAGICBYTE = 87, DNSSEC_UNKNOWN = 0, REPLY_UNKNOWN = 0\<rparr>"

definition cfg0 :: ConfigStruct where
  "cfg0 = \<lparr>config_privacylevel = 0, config_debug_database = False, config_maxDBdays = 365,
     config_maxlogage = 86400, config_analyze_AAAA = True, config_ignore_localhost = False\<rparr>"

definition E0 :: environment where
  "E0 = \<lparr>time_now = 1600000000, open_rc = 0, max_id_prepare_rc = 0, max_id_step_rc = 100,
     begin_rc = 0, insert_prepare_rc = 0, insert_step_rc = (\<lambda>i. 101), end_rc = 0, finalize_rc = 0,
     set_property_rc = 0, update_total_rc = 0, update_blocked_rc = 0, delete_rc = 0,
     asprintf_rc = 45, select_prepare_rc = 0, select_error = (\<lambda>n. 0),
     curl_easy_init = (\<lambda>i. True), curl_easy_perform = (\<lambda>i. 0),
     getDomainString = (\<lambda>i. ''example.com''), getClientIPString = (\<lambda>i. ''10.0.0.2''),
     getstr_forwarded = (\<lambda>n. ''8.8.8.8''), getOverTimeID = (\<lambda>t. 0),
     findDomainID = (\<lambda>s. 0), findClientID = (\<lambda>s. 0), findForwardID = (\<lambda>s. 0)\<rparr>"

definition q0 :: queriesData where
  "q0 = \<lparr>magic = 87, timestamp = 1599999000, timeidx = 0, qtype = 1, status = 2, domainID = 0,
     clientID = 0, forwardID = 0, db = 0, id' = 0, complete = True, privacylevel = 0,
     response = 0, dnssec = 0, reply = 0\<rparr>"

definition t0 :: tables where
  "t0 = \<lparr>rows = [], seq = 0, ftl = [0 \<mapsto> 3, 1 \<mapsto> 0, 2 \<mapsto> 1500000000],
          counters_tbl = [0 \<mapsto> 0, 1 \<mapsto> 0]\<rparr>"

definition w0 :: world where
  "w0 = \<lparr>database = True, lastdbindex = 0, queries = (\<lambda>_. q0),
     counters = \<lparr>counters_queries = 0, counters_unknown = 0, counters_blocked = 0,
                 counters_forwardedqueries = 0, counters_cached = 0, counters_querytype = (\<lambda>_. 0)\<rparr>,
     clients = (\<lambda>_. \<lparr>clients_lastQuery = 0, clients_numQueriesARP = 0, clients_blockedcount = 0,
                     clients_overTime = (\<lambda>_. 0)\<rparr>),
     domains = (\<lambda>_. \<lparr>domains_blockedcount = 0\<rparr>),
     overTime = (\<lambda>_. \<lparr>overTime_total = 0, overTime_blocked = 0, overTime_forwarded = 0,
                      overTime_cached = 0, overTime_querytypedata = (\<lambda>_. 0)\<rparr>),
     dbfile = t0, txn = None, conn = False, changes = 0, trace = []\<rparr>"

text \<open>The log \<open>w0\<close> with its first \<open>n\<close> slots in use.\<close>

definition in_use :: "int \<Rightarrow> world \<Rightarrow> world" where
  "in_use n w = w\<lparr>counters := (counters w)\<lparr>counters_queries := n\<rparr>\<rparr>"

definition row0 :: row where
  "row0 = \<lparr>col_id = 7, col_timestamp = 1599999000, col_type = 1, col_status = 3,
           col_domain = Some ''example.com'', col_client = Some ''10.0.0.2'', col_forward = None\<rparr>"

text \<open>A store with one row older than a year and one recent row; the empty log over
  it; a log of six records over it, of which record 1 is saved already, record 2 was
  recorded at maximum privacy, record 3 was blocked by gravity and record 4 is incomplete
  and one second old; a log whose only record was recorded at maximum privacy; and an
  environment in which every insertion fails but that of record 1.\<close>

definition t_stored :: tables where
  "t_stored = t0\<lparr>rows := [row0\<lparr>col_id := 3, col_timestamp := 1500000000\<rparr>, row0], seq := 7\<rparr>"

definition w_stored :: world where
  "w_stored = w0\<lparr>dbfile := t_stored\<rparr>"




section \<open>The loop of the flush\<close>

lemma verdicts: "passed_over K now q \<or> deferred now q \<or> eligible K now q"
  by (auto simp add: passed_over_def deferred_def eligible_def)

lemma save_body_over:
  "passed_over K now (queries w i) \<Longrightarrow> save_body K E now i (L, w) = (True, L, w)"
  by (auto simp add: save_body_def Let_def passed_over_def)

lemma save_body_deferred:
  "deferred now (queries w i) \<Longrightarrow> save_body K E now i (L, w) = (False, L, w)"
  by (auto simp add: save_body_def Let_def deferred_def)

lemma eligibleD:
  "eligible K now q \<Longrightarrow> db q = 0"
  "eligible K now q \<Longrightarrow> (\<not> complete q \<and> now - 2 < timestamp q) = False"
  "eligible K now q \<Longrightarrow> (PRIVACY_MAXIMUM K \<le> privacylevel q) = False"
  by (auto simp add: eligible_def)

lemma save_body_inserted:
  "conn w \<Longrightarrow> eligible K now (queries w i) \<Longrightarrow> insert_step_rc E i = SQLITE_DONE \<Longrightarrow>
   save_body K E now i (L, w) =
     (True,
      L\<lparr>saved := saved L + 1, lastID := lastID L + 1, total' := total' L + 1,
        blocked := blocked L + (if is_blocked_status K (status (queries w i)) then 1 else 0),
        newlasttimestamp := max (newlasttimestamp L) (timestamp (queries w i))\<rparr>,
      w\<lparr>queries := (queries w)(i := (queries w i)\<lparr>db := lastID L + 1\<rparr>),
        dbfile := insert_row (bindings K E i (queries w i)) (dbfile w),
        changes := 1,
        trace := trace w @ curl_events E i @ [SqlStep]\<rparr>)"
  by (simp add: save_body_def eligibleD sqlite3_step_insert_def emit_def Let_def max_def
        curl_post_def curl_events_def)

lemma save_body_failed:
  "conn w \<Longrightarrow> eligible K now (queries w i) \<Longrightarrow> insert_step_rc E i \<noteq> SQLITE_DONE \<Longrightarrow>
   save_body K E now i (L, w) =
     (saved_error L + 1 < 3,
      L\<lparr>saved_error := saved_error L + 1\<rparr>,
      w\<lparr>trace := trace w @ curl_events E i @
           [SqlStep, Logg ''save_to_DB() - SQL error (%i): %s'' [insert_step_rc E i]] @
           (if saved_error L + 1 < 3 then []
            else [Logg ''save_to_DB() - exiting due to too many errors'' []])\<rparr>)"
  by (simp add: save_body_def eligibleD sqlite3_step_insert_def emit_def logg_def Let_def
        curl_post_def curl_events_def)

lemma save_loop_unfold:
  "save_loop K E now i (L, w) =
     (if i < counters_queries (counters w) then
        if fst (save_body K E now i (L, w))
        then save_loop K E now (i + 1) (snd (save_body K E now i (L, w)))
        else (i, snd (save_body K E now i (L, w)))
      else (i, L, w))"
  by (subst save_loop.simps) (simp add: Let_def)

lemma save_loop_cases [consumes 2, case_names finished over deferred inserted failed aborted]:
  assumes run: "save_loop K E now i (L, w) = (i', L', w')" and cw: "conn w"
    and finished: "\<And>i L w. conn w \<Longrightarrow> \<not> i < counters_queries (counters w) \<Longrightarrow> P i L w i L w"
    and over: "\<And>i L w i' L' w'. conn w \<Longrightarrow> i < counters_queries (counters w) \<Longrightarrow>
        passed_over K now (queries w i) \<Longrightarrow> P (i + 1) L w i' L' w' \<Longrightarrow> P i L w i' L' w'"
    and deferred: "\<And>i L w. conn w \<Longrightarrow> i < counters_queries (counters w) \<Longrightarrow>
        deferred now (queries w i) \<Longrightarrow> P i L w i L w"
    and inserted: "\<And>i L w i' L' w'. conn w \<Longrightarrow> i < counters_queries (counters w) \<Longrightarrow>
        eligible K now (queries w i) \<Longrightarrow> insert_step_rc E i = SQLITE_DONE \<Longrightarrow>
        P (i + 1)
          (L\<lparr>saved := saved L + 1, lastID := lastID L + 1, total' := total' L + 1,
             blocked := blocked L + (if is_blocked_status K (status (queries w i)) then 1 else 0),
             newlasttimestamp := max (newlasttimestamp L) (timestamp (queries w i))\<rparr>)
          (w\<lparr>queries := (queries w)(i := (queries w i)\<lparr>db := lastID L + 1\<rparr>),
             dbfile := insert_row (bindings K E i (queries w i)) (dbfile w),
             changes := 1,
             trace := trace w @ curl_events E i @ [SqlStep]\<rparr>) i' L' w' \<Longrightarrow>
        P i L w i' L' w'"
    and failed: "\<And>i L w i' L' w'. conn w \<Longrightarrow> i < counters_queries (counters w) \<Longrightarrow>
        eligible K now (queries w i) \<Longrightarrow> insert_step_rc E i \<noteq> SQLITE_DONE \<Longrightarrow>
        saved_error L + 1 < 3 \<Longrightarrow>
        P (i + 1) (L\<lparr>saved_error := saved_error L + 1\<rparr>)
          (w\<lparr>trace := trace w @ curl_events E i @
               [SqlStep, Logg ''save_to_DB() - SQL error (%i): %s'' [insert_step_rc E i]]\<rparr>)
          i' L' w' \<Longrightarrow>
        P i L w i' L' w'"
    and aborted: "\<And>i L w. conn w \<Longrightarrow> i < counters_queries (counters w) \<Longrightarrow>
        eligible K now (queries w i) \<Longrightarrow> insert_step_rc E i \<noteq> SQLITE_DONE \<Longrightarrow>
        \<not> saved_error L + 1 < 3 \<Longrightarrow>
        P i L w i (L\<lparr>saved_error := saved_error L + 1\<rparr>)
          (w\<lparr>trace := trace w @ curl_events E i @
               [SqlStep, Logg ''save_to_DB() - SQL error (%i): %s'' [insert_step_rc E i],
                Logg ''save_to_DB() - exiting due to too many errors'' []]\<rparr>)"
  shows "P i L w i' L' w'"
proof -
  have "K' = K \<longrightarrow> E' = E \<longrightarrow> now' = now \<longrightarrow> conn (snd Lw) \<longrightarrow>
        save_loop K' E' now' j Lw = (i', L', w') \<longrightarrow> P j (fst Lw) (snd Lw) i' L' w'"
    for K' E' now' j Lw
  proof (induction K' E' now' j Lw rule: save_loop.induct)
    case (1 K' E' now' i Lw)
    obtain L w where Lw: "Lw = (L, w)" by (cases Lw)
    show ?case
    proof (intro impI)
      assume eqs: "K' = K" "E' = E" "now' = now"
      assume "conn (snd Lw)" and "save_loop K' E' now' i Lw = (i', L', w')"
      then have cw: "conn w" and run: "save_loop K E now i (L, w) = (i', L', w')"
        by (simp_all add: Lw eqs)
      have IH: "fst (save_body K E now i (L, w)) \<Longrightarrow> conn (snd (snd (save_body K E now i (L, w)))) \<Longrightarrow>
          save_loop K E now (i + 1) (snd (save_body K E now i (L, w))) = (i', L', w') \<Longrightarrow>
          P (i + 1) (fst (snd (save_body K E now i (L, w)))) (snd (snd (save_body K E now i (L, w))))
            i' L' w'"
        if "i < counters_queries (counters w)"
        using "1.IH" [OF _ refl] that by (simp add: Lw eqs)
      show "P i (fst Lw) (snd Lw) i' L' w'"
      proof (cases "i < counters_queries (counters w)")
        case False
        then have "i' = i" "L' = L" "w' = w" using run by (simp_all add: save_loop_unfold)
        then show ?thesis using finished [OF cw False] by (simp add: Lw)
      next
        case True
        consider (a) "passed_over K now (queries w i)" | (b) "deferred now (queries w i)"
          | (c) "eligible K now (queries w i)" "insert_step_rc E i = SQLITE_DONE"
          | (d) "eligible K now (queries w i)" "insert_step_rc E i \<noteq> SQLITE_DONE"
          using verdicts [of K now "queries w i"] by blast
        then show ?thesis
        proof cases
          case a
          note e = save_body_over [OF a, of E L]
          have "save_loop K E now (i + 1) (L, w) = (i', L', w')"
            using run True by (simp add: save_loop_unfold [of K E now i] e)
          then have "P (i + 1) L w i' L' w'" using IH [OF True] cw by (simp add: e)
          then show ?thesis using over [OF cw True a] by (simp add: Lw)
        next
          case b
          note e = save_body_deferred [OF b, of K E L]
          have "i' = i" "L' = L" "w' = w"
            using run True by (simp_all add: save_loop_unfold [of K E now i] e)
          then show ?thesis using deferred [OF cw True b] by (simp add: Lw)
        next
          case c
          note e = save_body_inserted [OF cw c, of L]
          have r: "save_loop K E now (i + 1) (snd (save_body K E now i (L, w))) = (i', L', w')"
            using run True by (simp add: save_loop_unfold [of K E now i] e)
          have "fst (save_body K E now i (L, w))" "conn (snd (snd (save_body K E now i (L, w))))"
            using cw by (simp_all add: e)
          from IH [OF True this r]
          show ?thesis using inserted [OF cw True c] by (simp add: Lw e)
        next
          case d
          note e = save_body_failed [OF cw d, of L]
          show ?thesis
          proof (cases "saved_error L + 1 < 3")
            case lt: True
            have r: "save_loop K E now (i + 1) (snd (save_body K E now i (L, w))) = (i', L', w')"
              using run True lt by (simp add: save_loop_unfold [of K E now i] e)
            have "fst (save_body K E now i (L, w))" "conn (snd (snd (save_body K E now i (L, w))))"
              using cw lt by (simp_all add: e)
            from IH [OF True this r]
            show ?thesis using failed [OF cw True d lt] lt by (simp add: Lw e)
          next
            case ge: False
            have "i' = i" "L' = L\<lparr>saved_error := saved_error L + 1\<rparr>"
              "w' = w\<lparr>trace := trace w @ curl_events E i @
                 [SqlStep, Logg ''save_to_DB() - SQL error (%i): %s'' [insert_step_rc E i],
                  Logg ''save_to_DB() - exiting due to too many errors'' []]\<rparr>"
              using run True ge by (auto simp add: save_loop_unfold [of K E now i] e)
            then show ?thesis using aborted [OF cw True d ge] by (simp add: Lw)
          qed
        qed
      qed
    qed
  qed
  from this [of K E now "(L, w)" i] show ?thesis
    using run cw by simp
qed

lemma flush_scan_over:
  "passed_over K now (Q i) \<Longrightarrow> flush_scan K E now Q e (i # js) = flush_scan K E now Q e js"
  by (auto simp add: passed_over_def)

lemma flush_scan_deferred:
  "deferred now (Q i) \<Longrightarrow> flush_scan K E now Q e (i # js) = ([], e)"
  by (auto simp add: deferred_def)

lemma flush_scan_eligible:
  "eligible K now (Q i) \<Longrightarrow> flush_scan K E now Q e (i # js) =
     (if insert_step_rc E i = SQLITE_DONE
      then (i # fst (flush_scan K E now Q e js), snd (flush_scan K E now Q e js))
      else if e + 1 < 3 then flush_scan K E now Q (e + 1) js else ([], e + 1))"
  by (auto simp add: eligible_def)

lemma flush_scan_subset: "set (fst (flush_scan K E now Q e js)) \<subseteq> set js"
  by (induction js arbitrary: e) auto



lemma upto_step: "i < n \<Longrightarrow> [i..n - 1] = i # [i + 1..n - 1]"
  by (simp add: upto_rec1)

lemma agree_from_refl: "agree_from i Q Q"
  by (simp add: agree_from_def)

lemma agree_from_here: "agree_from i F Q \<Longrightarrow> F i = Q i"
  by (simp add: agree_from_def)

lemma agree_from_next: "agree_from i F Q \<Longrightarrow> agree_from (i + 1) F Q"
  by (simp add: agree_from_def)

lemma agree_from_upd: "agree_from i F Q \<Longrightarrow> agree_from (i + 1) (F(i := x)) Q"
  by (simp add: agree_from_def)

lemma agree_from_upd': "agree_from i F Q \<Longrightarrow> agree_from (i + 1) (\<lambda>a. if a = i then x else F a) Q"
  by (simp add: agree_from_def)

lemma save_loop_scan:
  assumes "save_loop K E now i (L, w) = (i', L', w')" and "conn w"
  shows "agree_from i (queries w) Q \<longrightarrow>
         dbfile w' = fold insert_row
            (map (\<lambda>j. bindings K E j (Q j))
               (fst (flush_scan K E now Q (saved_error L) [i..counters_queries (counters w) - 1])))
            (dbfile w)
       \<and> saved L' = saved L + length (fst (flush_scan K E now Q (saved_error L) [i..counters_queries (counters w) - 1]))
       \<and> saved_error L' = snd (flush_scan K E now Q (saved_error L) [i..counters_queries (counters w) - 1])
       \<and> lastID L' = lastID L + int (length (fst (flush_scan K E now Q (saved_error L) [i..counters_queries (counters w) - 1])))
       \<and> total' L' = total' L + int (length (fst (flush_scan K E now Q (saved_error L) [i..counters_queries (counters w) - 1])))
       \<and> blocked L' = blocked L + int (length (filter (\<lambda>j. is_blocked_status K (status (Q j)))
              (fst (flush_scan K E now Q (saved_error L) [i..counters_queries (counters w) - 1]))))
       \<and> newlasttimestamp L' = fold (\<lambda>j m. max m (timestamp (Q j)))
              (fst (flush_scan K E now Q (saved_error L) [i..counters_queries (counters w) - 1]))
              (newlasttimestamp L)"
  using assms
proof (induction rule: save_loop_cases)
  case (finished i L w)
  then show ?case by simp
next
  case (over i L w i' L' w')
  show ?case
  proof
    assume a: "agree_from i (queries w) Q"
    have "passed_over K now (Q i)" using over(3) agree_from_here [OF a] by simp
    then show "dbfile w' = fold insert_row
            (map (\<lambda>j. bindings K E j (Q j))
               (fst (flush_scan K E now Q (saved_error L) [i..counters_queries (counters w) - 1])))
            (dbfile w)
       \<and> saved L' = saved L + length (fst (flush_scan K E now Q (saved_error L) [i..counters_queries (counters w) - 1]))
       \<and> saved_error L' = snd (flush_scan K E now Q (saved_error L) [i..counters_queries (counters w) - 1])
       \<and> lastID L' = lastID L + int (length (fst (flush_scan K E now Q (saved_error L) [i..counters_queries (counters w) - 1])))
       \<and> total' L' = total' L + int (length (fst (flush_scan K E now Q (saved_error L) [i..counters_queries (counters w) - 1])))
       \<and> blocked L' = blocked L + int (length (filter (\<lambda>j. is_blocked_status K (status (Q j)))
              (fst (flush_scan K E now Q (saved_error L) [i..counters_queries (counters w) - 1]))))
       \<and> newlasttimestamp L' = fold (\<lambda>j m. max m (timestamp (Q j)))
              (fst (flush_scan K E now Q (saved_error L) [i..counters_queries (counters w) - 1]))
              (newlasttimestamp L)"
      using over(2,4) agree_from_next [OF a]
      by (simp add: upto_step flush_scan_over del: flush_scan.simps)
  qed
next
  case (deferred i L w)
  show ?case
  proof
    assume a: "agree_from i (queries w) Q"
    have "deferred now (Q i)" using deferred(3) agree_from_here [OF a] by simp
    then show "dbfile w = fold insert_row
            (map (\<lambda>j. bindings K E j (Q j))
               (fst (flush_scan K E now Q (saved_error L) [i..counters_queries (counters w) - 1])))
            (dbfile w)
       \<and> saved L = saved L + length (fst (flush_scan K E now Q (saved_error L) [i..counters_queries (counters w) - 1]))
       \<and> saved_error L = snd (flush_scan K E now Q (saved_error L) [i..counters_queries (counters w) - 1])
       \<and> lastID L = lastID L + int (length (fst (flush_scan K E now Q (saved_error L) [i..counters_queries (counters w) - 1])))
       \<and> total' L = total' L + int (length (fst (flush_scan K E now Q (saved_error L) [i..counters_queries (counters w) - 1])))
       \<and> blocked L = blocked L + int (length (filter (\<lambda>j. is_blocked_status K (status (Q j)))
              (fst (flush_scan K E now Q (saved_error L) [i..counters_queries (counters w) - 1]))))
       \<and> newlasttimestamp L = fold (\<lambda>j m. max m (timestamp (Q j)))
              (fst (flush_scan K E now Q (saved_error L) [i..counters_queries (counters w) - 1]))
              (newlasttimestamp L)"
      using deferred(2)
      by (simp add: upto_step flush_scan_deferred del: flush_scan.simps)
  qed
next
  case (inserted i L w i' L' w')
  show ?case
  proof
    assume a: "agree_from i (queries w) Q"
    have e: "eligible K now (Q i)" and q: "queries w i = Q i"
      using inserted(3) agree_from_here [OF a] by simp_all
    show "dbfile w' = fold insert_row
            (map (\<lambda>j. bindings K E j (Q j))
               (fst (flush_scan K E now Q (saved_error L) [i..counters_queries (counters w) - 1])))
            (dbfile w)
       \<and> saved L' = saved L + length (fst (flush_scan K E now Q (saved_error L) [i..counters_queries (counters w) - 1]))
       \<and> saved_error L' = snd (flush_scan K E now Q (saved_error L) [i..counters_queries (counters w) - 1])
       \<and> lastID L' = lastID L + int (length (fst (flush_scan K E now Q (saved_error L) [i..counters_queries (counters w) - 1])))
       \<and> total' L' = total' L + int (length (fst (flush_scan K E now Q (saved_error L) [i..counters_queries (counters w) - 1])))
       \<and> blocked L' = blocked L + int (length (filter (\<lambda>j. is_blocked_status K (status (Q j)))
              (fst (flush_scan K E now Q (saved_error L) [i..counters_queries (counters w) - 1]))))
       \<and> newlasttimestamp L' = fold (\<lambda>j m. max m (timestamp (Q j)))
              (fst (flush_scan K E now Q (saved_error L) [i..counters_queries (counters w) - 1]))
              (newlasttimestamp L)"
      using inserted(2,4,5) agree_from_upd [OF a] agree_from_upd' [OF a] e
      by (simp add: upto_step flush_scan_eligible q del: flush_scan.simps)
  qed
next
  case (failed i L w i' L' w')
  show ?case
  proof
    assume a: "agree_from i (queries w) Q"
    have e: "eligible K now (Q i)" using failed(3) agree_from_here [OF a] by simp
    show "dbfile w' = fold insert_row
            (map (\<lambda>j. bindings K E j (Q j))
               (fst (flush_scan K E now Q (saved_error L) [i..counters_queries (counters w) - 1])))
            (dbfile w)
       \<and> saved L' = saved L + length (fst (flush_scan K E now Q (saved_error L) [i..counters_queries (counters w) - 1]))
       \<and> saved_error L' = snd (flush_scan K E now Q (saved_error L) [i..counters_queries (counters w) - 1])
       \<and> lastID L' = lastID L + int (length (fst (flush_scan K E now Q (saved_error L) [i..counters_queries (counters w) - 1])))
       \<and> total' L' = total' L + int (length (fst (flush_scan K E now Q (saved_error L) [i..counters_queries (counters w) - 1])))
       \<and> blocked L' = blocked L + int (length (filter (\<lambda>j. is_blocked_status K (status (Q j)))
              (fst (flush_scan K E now Q (saved_error L) [i..counters_queries (counters w) - 1]))))
       \<and> newlasttimestamp L' = fold (\<lambda>j m. max m (timestamp (Q j)))
              (fst (flush_scan K E now Q (saved_error L) [i..counters_queries (counters w) - 1]))
              (newlasttimestamp L)"
      using failed(2,4,5,6) agree_from_next [OF a] e
      by (simp add: upto_step flush_scan_eligible del: flush_scan.simps)
  qed
next
  case (aborted i L w)
  show ?case
  proof
    assume a: "agree_from i (queries w) Q"
    have e: "eligible K now (Q i)" using aborted(3) agree_from_here [OF a] by simp
    show "dbfile (w\<lparr>trace := trace w @ curl_events E i @
               [SqlStep, Logg ''save_to_DB() - SQL error (%i): %s'' [insert_step_rc E i],
                Logg ''save_to_DB() - exiting due to too many errors'' []]\<rparr>) = fold insert_row
            (map (\<lambda>j. bindings K E j (Q j))
               (fst (flush_scan K E now Q (saved_error L) [i..counters_queries (counters w) - 1])))
            (dbfile w)
       \<and> saved (L\<lparr>saved_error := saved_error L + 1\<rparr>) = saved L + length (fst (flush_scan K E now Q (saved_error L) [i..counters_queries (counters w) - 1]))
       \<and> saved_error (L\<lparr>saved_error := saved_error L + 1\<rparr>) = snd (flush_scan K E now Q (saved_error L) [i..counters_queries (counters w) - 1])
       \<and> lastID (L\<lparr>saved_error := saved_error L + 1\<rparr>) = lastID L + int (length (fst (flush_scan K E now Q (saved_error L) [i..counters_queries (counters w) - 1])))
       \<and> total' (L\<lparr>saved_error := saved_error L + 1\<rparr>) = total' L + int (length (fst (flush_scan K E now Q (saved_error L) [i..counters_queries (counters w) - 1])))
       \<and> blocked (L\<lparr>saved_error := saved_error L + 1\<rparr>) = blocked L + int (length (filter (\<lambda>j. is_blocked_status K (status (Q j)))
              (fst (flush_scan K E now Q (saved_error L) [i..counters_queries (counters w) - 1]))))
       \<and> newlasttimestamp (L\<lparr>saved_error := saved_error L + 1\<rparr>) = fold (\<lambda>j m. max m (timestamp (Q j)))
              (fst (flush_scan K E now Q (saved_error L) [i..counters_queries (counters w) - 1]))
              (newlasttimestamp L)"
      using aborted(2,4,5) e
      by (simp add: upto_step flush_scan_eligible del: flush_scan.simps)
  qed
qed

lemma save_loop_frame:
  assumes "save_loop K E now i (L, w) = (i', L', w')" and "conn w"
  shows "conn w' \<and> txn w' = txn w \<and> counters w' = counters w \<and> lastdbindex w' = lastdbindex w \<and>
         database w' = database w \<and> clients w' = clients w \<and> domains w' = domains w \<and>
         overTime w' = overTime w"
  using assms by (induction rule: save_loop_cases) simp_all

lemma flush_scan_fresh: "i \<notin> set (fst (flush_scan K E now Q e [i + 1..m]))"
  using flush_scan_subset [of K E now Q e "[i + 1..m]"] by auto

lemma save_loop_queries:
  assumes "save_loop K E now i (L, w) = (i', L', w')" and "conn w"
  shows "agree_from i (queries w) Q \<longrightarrow>
         (\<forall>j. j \<notin> set (fst (flush_scan K E now Q (saved_error L) [i..counters_queries (counters w) - 1]))
                \<longrightarrow> queries w' j = queries w j) \<and>
         (\<forall>j. j \<in> set (fst (flush_scan K E now Q (saved_error L) [i..counters_queries (counters w) - 1]))
                \<longrightarrow> lastID L < db (queries w' j) \<and> queries w' j = (Q j)\<lparr>db := db (queries w' j)\<rparr>)"
  using assms
proof (induction rule: save_loop_cases)
  case (finished i L w)
  then show ?case by simp
next
  case (over i L w i' L' w')
  show ?case (is "_ \<longrightarrow> ?C")
  proof
    assume a: "agree_from i (queries w) Q"
    have "passed_over K now (Q i)" using over(3) agree_from_here [OF a] by simp
    then show ?C using over(2,4) agree_from_next [OF a]
      by (simp add: upto_step flush_scan_over del: flush_scan.simps)
  qed
next
  case (deferred i L w)
  show ?case (is "_ \<longrightarrow> ?C")
  proof
    assume a: "agree_from i (queries w) Q"
    have "deferred now (Q i)" using deferred(3) agree_from_here [OF a] by simp
    then show ?C using deferred(2)
      by (simp add: upto_step flush_scan_deferred del: flush_scan.simps)
  qed
next
  case (inserted i L w i' L' w')
  show ?case (is "_ \<longrightarrow> ?C")
  proof
    assume a: "agree_from i (queries w) Q"
    have e: "eligible K now (Q i)" and q: "queries w i = Q i"
      using inserted(3) agree_from_here [OF a] by simp_all
    let ?ins = "fst (flush_scan K E now Q (saved_error L) [i + 1..counters_queries (counters w) - 1])"
    have fr: "i \<notin> set ?ins" by (rule flush_scan_fresh)
    have ih: "(\<forall>j. j \<notin> set ?ins \<longrightarrow> queries w' j = ((queries w)(i := (Q i)\<lparr>db := lastID L + 1\<rparr>)) j) \<and>
              (\<forall>j. j \<in> set ?ins \<longrightarrow> lastID L + 1 < db (queries w' j) \<and>
                   queries w' j = (Q j)\<lparr>db := db (queries w' j)\<rparr>)"
      using inserted(5) agree_from_upd [OF a] agree_from_upd' [OF a]
      by (simp add: q del: flush_scan.simps)
    have here: "queries w' i = (Q i)\<lparr>db := lastID L + 1\<rparr>" using ih fr by simp
    have sc: "flush_scan K E now Q (saved_error L) [i..counters_queries (counters w) - 1]
              = (i # ?ins, snd (flush_scan K E now Q (saved_error L) [i + 1..counters_queries (counters w) - 1]))"
      using inserted(2,4) e by (simp add: upto_step flush_scan_eligible del: flush_scan.simps)
    show ?C unfolding sc using ih here by auto
  qed
next
  case (failed i L w i' L' w')
  show ?case (is "_ \<longrightarrow> ?C")
  proof
    assume a: "agree_from i (queries w) Q"
    have e: "eligible K now (Q i)" using failed(3) agree_from_here [OF a] by simp
    show ?C using failed(2,4,5,6) agree_from_next [OF a] e
      by (simp add: upto_step flush_scan_eligible del: flush_scan.simps)
  qed
next
  case (aborted i L w)
  show ?case (is "_ \<longrightarrow> ?C")
  proof
    assume a: "agree_from i (queries w) Q"
    have e: "eligible K now (Q i)" using aborted(3) agree_from_here [OF a] by simp
    show ?C using aborted(2,4,5) e
      by (simp add: upto_step flush_scan_eligible del: flush_scan.simps)
  qed
qed

lemma not_deferred: "passed_over K now q \<Longrightarrow> \<not> deferred now q" "eligible K now q \<Longrightarrow> \<not> deferred now q"
  by (auto simp add: passed_over_def deferred_def eligible_def)

lemma save_loop_index:
  assumes "save_loop K E now i (L, w) = (i', L', w')" and "conn w"
  shows "i \<le> i' \<and> saved_error L \<le> saved_error L' \<and>
         (saved_error L' = saved_error L \<longrightarrow> i \<le> counters_queries (counters w) \<longrightarrow>
          agree_from i (queries w) Q \<longrightarrow>
          i' = first_index (\<lambda>j. deferred now (Q j)) (counters_queries (counters w))
                 [i..counters_queries (counters w) - 1])"
  using assms
proof (induction rule: save_loop_cases)
  case (finished i L w)
  then show ?case by auto
next
  case (over i L w i' L' w')
  then show ?case
    using not_deferred(1) [of K now "queries w i"]
    by (auto simp add: upto_step agree_from_next dest: agree_from_here)
next
  case (deferred i L w)
  then show ?case by (auto simp add: upto_step dest: agree_from_here)
next
  case (inserted i L w i' L' w')
  then show ?case
    using not_deferred(2) [of K now "queries w i"]
    by (auto simp add: upto_step agree_from_upd agree_from_upd' dest: agree_from_here)
next
  case (failed i L w i' L' w')
  then show ?case by auto
next
  case (aborted i L w)
  then show ?case by auto
qed



lemma check_database_frame:
  "lastdbindex (check_database rc w) = lastdbindex w"
  "queries (check_database rc w) = queries w"
  "counters (check_database rc w) = counters w"
  "clients (check_database rc w) = clients w"
  "domains (check_database rc w) = domains w"
  "overTime (check_database rc w) = overTime w"
  "dbfile (check_database rc w) = dbfile w"
  "txn (check_database rc w) = txn w"
  "conn (check_database rc w) = conn w"
  "changes (check_database rc w) = changes w"
  by (simp_all add: check_database_def logg_def emit_def)

lemma logg_frame:
  "database (logg f a w) = database w"
  "lastdbindex (logg f a w) = lastdbindex w"
  "queries (logg f a w) = queries w"
  "counters (logg f a w) = counters w"
  "clients (logg f a w) = clients w"
  "domains (logg f a w) = domains w"
  "overTime (logg f a w) = overTime w"
  "dbfile (logg f a w) = dbfile w"
  "txn (logg f a w) = txn w"
  "conn (logg f a w) = conn w"
  "changes (logg f a w) = changes w"
  "trace (logg f a w) = trace w @ [Logg f a]"
  by (simp_all add: logg_def emit_def)

lemma emit_frame:
  "database (emit e w) = database w"
  "lastdbindex (emit e w) = lastdbindex w"
  "queries (emit e w) = queries w"
  "counters (emit e w) = counters w"
  "clients (emit e w) = clients w"
  "domains (emit e w) = domains w"
  "overTime (emit e w) = overTime w"
  "dbfile (emit e w) = dbfile w"
  "txn (emit e w) = txn w"
  "conn (emit e w) = conn w"
  "changes (emit e w) = changes w"
  "trace (emit e w) = trace w @ [e]"
  by (simp_all add: emit_def)

lemma dbclose_frame:
  "database (dbclose w) = database w"
  "lastdbindex (dbclose w) = lastdbindex w"
  "queries (dbclose w) = queries w"
  "counters (dbclose w) = counters w"
  "clients (dbclose w) = clients w"
  "domains (dbclose w) = domains w"
  "overTime (dbclose w) = overTime w"
  "dbfile (dbclose w) = (case txn w of None \<Rightarrow> dbfile w | Some t \<Rightarrow> t)"
  "txn (dbclose w) = None"
  "conn (dbclose w) = False"
  "trace (dbclose w) = trace w @ [SqlClose]"
  by (simp_all add: dbclose_def sqlite3_close_def emit_def)

lemma run_sql_frame:
  "database (run_sql s w) = database w"
  "lastdbindex (run_sql s w) = lastdbindex w"
  "queries (run_sql s w) = queries w"
  "counters (run_sql s w) = counters w"
  "clients (run_sql s w) = clients w"
  "domains (run_sql s w) = domains w"
  "overTime (run_sql s w) = overTime w"
  "conn (run_sql s w) = conn w"
  "trace (run_sql s w) = trace w"
  by (cases s; simp split: option.splits)+

lemma dbquery_frame:
  "fst (dbquery cfg rc s w) \<longleftrightarrow> conn w \<and> rc = SQLITE_OK"
  "lastdbindex (snd (dbquery cfg rc s w)) = lastdbindex w"
  "queries (snd (dbquery cfg rc s w)) = queries w"
  "counters (snd (dbquery cfg rc s w)) = counters w"
  "clients (snd (dbquery cfg rc s w)) = clients w"
  "domains (snd (dbquery cfg rc s w)) = domains w"
  "overTime (snd (dbquery cfg rc s w)) = overTime w"
  "conn (snd (dbquery cfg rc s w)) = conn w"
  by (simp_all add: dbquery_def sqlite3_exec_def Let_def split_def emit_frame logg_frame
        check_database_frame run_sql_frame SQLITE_OK_def SQLITE_MISUSE_def)

lemma run_sql_trace_irrelevant:
  "dbfile (run_sql s (w\<lparr>trace := tr\<rparr>)) = dbfile (run_sql s w)"
  "txn (run_sql s (w\<lparr>trace := tr\<rparr>)) = txn (run_sql s w)"
  by (cases s; simp split: option.splits)+

lemma dbquery_store:
  "dbfile (snd (dbquery cfg rc s w)) = (if conn w \<and> rc = SQLITE_OK then dbfile (run_sql s w) else dbfile w)"
  "txn (snd (dbquery cfg rc s w)) = (if conn w \<and> rc = SQLITE_OK then txn (run_sql s w) else txn w)"
  by (simp_all add: dbquery_def sqlite3_exec_def Let_def split_def emit_def logg_def
        check_database_frame run_sql_trace_irrelevant SQLITE_OK_def SQLITE_MISUSE_def)

lemma flush_start_frame:
  "database (flush_start cfg w) = database w"
  "lastdbindex (flush_start cfg w) = lastdbindex w"
  "queries (flush_start cfg w) = queries w"
  "counters (flush_start cfg w) = counters w"
  "clients (flush_start cfg w) = clients w"
  "domains (flush_start cfg w) = domains w"
  "overTime (flush_start cfg w) = overTime w"
  "dbfile (flush_start cfg w) = dbfile w"
  "txn (flush_start cfg w) = Some (dbfile w)"
  "conn (flush_start cfg w)"
  by (simp_all add: flush_start_def)

lemma save_to_DB_reached:
  assumes "scan_reached K cfg E"
  shows "save_to_DB K cfg E w =
           (Some (fst (save_loop K E (time_now E) (max 0 (lastdbindex w)) (L_start w, flush_start cfg w)),
                  fst (snd (save_loop K E (time_now E) (max 0 (lastdbindex w)) (L_start w, flush_start cfg w)))),
            save_finish K cfg E
              (save_loop K E (time_now E) (max 0 (lastdbindex w)) (L_start w, flush_start cfg w)))"
proof -
  have a: "\<not> PRIVACY_NOSTATS K \<le> config_privacylevel cfg" "open_rc E = 0" "max_id_prepare_rc E = 0"
    "max_id_step_rc E = SQLITE_ROW" "begin_rc E = SQLITE_OK" "insert_prepare_rc E = 0"
    using assms by (simp_all add: scan_reached_def)
  have w4: "snd (sqlite3_prepare_v2 0 ''INSERT INTO queries VALUES (NULL,?,?,?,?,?,?)''
              (snd (dbquery cfg SQLITE_OK BEGIN_TRANSACTION
                 (snd (last_ID_in_DB K E (snd (dbopen E w))))))) = flush_start cfg w"
    by (simp add: a dbopen_def last_ID_in_DB_def sqlite3_prepare_v2_def dbquery_def sqlite3_exec_def
          Let_def emit_def logg_def flush_start_def)
  have id: "fst (last_ID_in_DB K E (snd (dbopen E w))) = max_id (rows (dbfile w))"
    by (simp add: a dbopen_def last_ID_in_DB_def sqlite3_prepare_v2_def Let_def emit_def)
  have ok: "fst (dbopen E w)" "fst (dbquery cfg SQLITE_OK BEGIN_TRANSACTION (snd (last_ID_in_DB K E (snd (dbopen E w)))))"
    "fst (sqlite3_prepare_v2 0 ''INSERT INTO queries VALUES (NULL,?,?,?,?,?,?)''
              (snd (dbquery cfg SQLITE_OK BEGIN_TRANSACTION
                 (snd (last_ID_in_DB K E (snd (dbopen E w))))))) = 0"
    by (simp_all add: a dbopen_def last_ID_in_DB_def sqlite3_prepare_v2_def dbquery_def sqlite3_exec_def
          Let_def emit_def logg_def)
  show ?thesis
    unfolding save_to_DB_def using ok w4 id
    by (simp add: a split_def Let_def L_start_def flush_start_frame)
qed

section \<open>The end of the flush\<close>

lemma run_sql_update:
  "dbfile (run_sql (UPDATE_counters_SET_value_plus d k) w) =
     (dbfile w)\<lparr>counters_tbl := bump (counters_tbl (dbfile w)) k d\<rparr>"
  "txn (run_sql (UPDATE_counters_SET_value_plus d k) w) = txn w"
  by (simp_all add: bump_def split: option.splits)

lemma run_sql_replace:
  "dbfile (run_sql (INSERT_OR_REPLACE_INTO_ftl k v) w) = (dbfile w)\<lparr>ftl := (ftl (dbfile w))(k \<mapsto> v)\<rparr>"
  "txn (run_sql (INSERT_OR_REPLACE_INTO_ftl k v) w) = txn w"
  by simp_all

lemma run_sql_end:
  "dbfile (run_sql END_TRANSACTION w) = dbfile w"
  "txn (run_sql END_TRANSACTION w) = None"
  by simp_all

lemma db_set_FTL_property_frame:
  "lastdbindex (snd (db_set_FTL_property cfg E k v w)) = lastdbindex w"
  "queries (snd (db_set_FTL_property cfg E k v w)) = queries w"
  "counters (snd (db_set_FTL_property cfg E k v w)) = counters w"
  "clients (snd (db_set_FTL_property cfg E k v w)) = clients w"
  "domains (snd (db_set_FTL_property cfg E k v w)) = domains w"
  "overTime (snd (db_set_FTL_property cfg E k v w)) = overTime w"
  "conn (snd (db_set_FTL_property cfg E k v w)) = conn w"
  "txn (snd (db_set_FTL_property cfg E k v w)) = txn w"
  "dbfile (snd (db_set_FTL_property cfg E k v w)) =
     (if conn w \<and> set_property_rc E = SQLITE_OK
      then (dbfile w)\<lparr>ftl := (ftl (dbfile w))(k \<mapsto> v)\<rparr> else dbfile w)"
  by (simp_all add: db_set_FTL_property_def dbquery_frame dbquery_store run_sql_replace del: run_sql.simps)

lemma db_update_counters_frame:
  "lastdbindex (snd (db_update_counters K cfg E a b w)) = lastdbindex w"
  "queries (snd (db_update_counters K cfg E a b w)) = queries w"
  "counters (snd (db_update_counters K cfg E a b w)) = counters w"
  "clients (snd (db_update_counters K cfg E a b w)) = clients w"
  "domains (snd (db_update_counters K cfg E a b w)) = domains w"
  "overTime (snd (db_update_counters K cfg E a b w)) = overTime w"
  "conn (snd (db_update_counters K cfg E a b w)) = conn w"
  "txn (snd (db_update_counters K cfg E a b w)) = txn w"
  "dbfile (snd (db_update_counters K cfg E a b w)) =
     (if conn w \<and> update_total_rc E = SQLITE_OK then
        if update_blocked_rc E = SQLITE_OK
        then (dbfile w)\<lparr>counters_tbl :=
               bump (bump (counters_tbl (dbfile w)) (DB_TOTALQUERIES K) a) (DB_BLOCKEDQUERIES K) b\<rparr>
        else (dbfile w)\<lparr>counters_tbl := bump (counters_tbl (dbfile w)) (DB_TOTALQUERIES K) a\<rparr>
      else dbfile w)"
  by (simp_all add: db_update_counters_def split_def Let_def dbquery_frame dbquery_store run_sql_update del: run_sql.simps)

lemma save_finish_frame:
  "queries (save_finish K cfg E (i, L, w)) = queries w"
  "counters (save_finish K cfg E (i, L, w)) = counters w"
  "clients (save_finish K cfg E (i, L, w)) = clients w"
  "domains (save_finish K cfg E (i, L, w)) = domains w"
  "overTime (save_finish K cfg E (i, L, w)) = overTime w"
  "txn (save_finish K cfg E (i, L, w)) = None"
  "conn (save_finish K cfg E (i, L, w)) = False"
  by (simp_all add: save_finish_def split_def Let_def dbquery_frame dbclose_frame emit_frame
        logg_frame db_set_FTL_property_frame db_update_counters_frame)


lemma save_finish_store:
  "conn w \<Longrightarrow> dbfile (save_finish K cfg E (i, L, w)) =
     (if end_rc E = SQLITE_OK then
        if finalize_rc E = SQLITE_OK \<and> saved L > 0 then
          dbfile (snd (db_update_counters K cfg E (total' L) (blocked L)
            (if saved_error L = 0
             then snd (db_set_FTL_property cfg E (DB_LASTTIMESTAMP K) (newlasttimestamp L)
                         (w\<lparr>lastdbindex := i, txn := None\<rparr>))
             else w\<lparr>txn := None\<rparr>)))
        else dbfile w
      else (case txn w of None \<Rightarrow> dbfile w | Some t \<Rightarrow> t))"
  by (simp add: save_finish_def split_def Let_def dbquery_frame dbquery_store dbclose_frame emit_frame
        logg_frame db_set_FTL_property_frame db_update_counters_frame run_sql_end del: run_sql.simps
        split: option.split)

lemma flush_reached:
  assumes r: "scan_reached K cfg E"
  obtains i' L' w5 where
    "save_to_DB K cfg E w = (Some (i', L'), save_finish K cfg E (i', L', w5))"
    "dbfile w5 = fold insert_row (map (\<lambda>j. bindings K E j (queries w j)) (written K cfg E w)) (dbfile w)"
    "saved L' = length (written K cfg E w)"
    "saved_error L' = snd (flush_scan K E (time_now E) (queries w) 0 (to_scan w))"
    "lastID L' = max_id (rows (dbfile w)) + int (length (written K cfg E w))"
    "total' L' = int (length (written K cfg E w))"
    "blocked L' = int (length (filter (\<lambda>j. is_blocked_status K (status (queries w j))) (written K cfg E w)))"
    "newlasttimestamp L' = fold (\<lambda>j m. max m (timestamp (queries w j))) (written K cfg E w) 0"
    "conn w5" "txn w5 = Some (dbfile w)" "counters w5 = counters w" "lastdbindex w5 = lastdbindex w"
    "database w5 = database w" "clients w5 = clients w" "domains w5 = domains w" "overTime w5 = overTime w"
    "\<And>j. j \<notin> set (written K cfg E w) \<Longrightarrow> queries w5 j = queries w j"
    "\<And>j. j \<in> set (written K cfg E w) \<Longrightarrow>
        max_id (rows (dbfile w)) < db (queries w5 j) \<and> queries w5 j = (queries w j)\<lparr>db := db (queries w5 j)\<rparr>"
    "max 0 (lastdbindex w) \<le> i'"
    "saved_error L' = 0 \<Longrightarrow> max 0 (lastdbindex w) \<le> counters_queries (counters w) \<Longrightarrow>
       i' = first_index (\<lambda>j. deferred (time_now E) (queries w j)) (counters_queries (counters w)) (to_scan w)"
proof -
  obtain i' L' w5 where
    run: "save_loop K E (time_now E) (max 0 (lastdbindex w)) (L_start w, flush_start cfg w) = (i', L', w5)"
    by (cases "save_loop K E (time_now E) (max 0 (lastdbindex w)) (L_start w, flush_start cfg w)")
  have c: "conn (flush_start cfg w)" by (simp add: flush_start_frame)
  have ag: "agree_from (max 0 (lastdbindex w)) (queries (flush_start cfg w)) (queries w)"
    by (simp add: flush_start_frame agree_from_refl)
  note sc = save_loop_scan [OF run c, of "queries w", THEN mp, OF ag,
      unfolded flush_start_frame, folded to_scan_def]
  note fr = save_loop_frame [OF run c, unfolded flush_start_frame]
  note qs = save_loop_queries [OF run c, of "queries w", THEN mp, OF ag,
      unfolded flush_start_frame, folded to_scan_def]
  note ix = save_loop_index [OF run c, of "queries w", unfolded flush_start_frame, folded to_scan_def]
  have wr: "written K cfg E w = fst (flush_scan K E (time_now E) (queries w) 0 (to_scan w))"
    using r by (simp add: written_def)
  show ?thesis
  proof (rule that [of i' L' w5])
    show "save_to_DB K cfg E w = (Some (i', L'), save_finish K cfg E (i', L', w5))"
      by (simp add: save_to_DB_reached [OF r] run)
  qed (use sc fr qs ix in \<open>simp_all add: wr L_start_def agree_from_refl\<close>)
qed

lemma dbopen_frame:
  "fst (dbopen E w) \<longleftrightarrow> open_rc E = 0"
  "lastdbindex (snd (dbopen E w)) = lastdbindex w"
  "queries (snd (dbopen E w)) = queries w"
  "counters (snd (dbopen E w)) = counters w"
  "clients (snd (dbopen E w)) = clients w"
  "domains (snd (dbopen E w)) = domains w"
  "overTime (snd (dbopen E w)) = overTime w"
  "open_rc E = 0 \<Longrightarrow> conn (snd (dbopen E w))"
  "open_rc E = 0 \<Longrightarrow> dbfile (snd (dbopen E w)) = dbfile w"
  "open_rc E = 0 \<Longrightarrow> txn (snd (dbopen E w)) = txn w"
  "open_rc E = 0 \<Longrightarrow> database (snd (dbopen E w)) = database w"
  "open_rc E \<noteq> 0 \<Longrightarrow> dbfile (snd (dbopen E w)) = (case txn w of None \<Rightarrow> dbfile w | Some t \<Rightarrow> t)"
  "open_rc E \<noteq> 0 \<Longrightarrow> txn (snd (dbopen E w)) = None"
  by (simp_all add: dbopen_def Let_def check_database_frame dbclose_frame logg_frame emit_frame
        split: option.split)

lemma last_ID_in_DB_frame:
  "lastdbindex (snd (last_ID_in_DB K E w)) = lastdbindex w"
  "queries (snd (last_ID_in_DB K E w)) = queries w"
  "counters (snd (last_ID_in_DB K E w)) = counters w"
  "clients (snd (last_ID_in_DB K E w)) = clients w"
  "domains (snd (last_ID_in_DB K E w)) = domains w"
  "overTime (snd (last_ID_in_DB K E w)) = overTime w"
  "conn (snd (last_ID_in_DB K E w)) \<longleftrightarrow>
     conn w \<and> max_id_prepare_rc E = 0 \<and> max_id_step_rc E = SQLITE_ROW"
  "txn w = None \<Longrightarrow> dbfile (snd (last_ID_in_DB K E w)) = dbfile w"
  "txn w = None \<Longrightarrow> txn (snd (last_ID_in_DB K E w)) = None"
  by (simp_all add: last_ID_in_DB_def sqlite3_prepare_v2_def Let_def check_database_frame
        dbclose_frame logg_frame emit_frame SQLITE_MISUSE_def SQLITE_ROW_def)

lemma prepare_frame:
  "fst (sqlite3_prepare_v2 rc s w) = (if conn w then rc else SQLITE_MISUSE)"
  "snd (sqlite3_prepare_v2 rc s w) = emit (SqlPrepare s) w"
  by (simp_all add: sqlite3_prepare_v2_def Let_def emit_frame)

lemma flush_not_reached:
  assumes "\<not> scan_reached K cfg E"
  shows "fst (save_to_DB K cfg E w) = None"
    "lastdbindex (snd (save_to_DB K cfg E w)) = lastdbindex w"
    "queries (snd (save_to_DB K cfg E w)) = queries w"
    "counters (snd (save_to_DB K cfg E w)) = counters w"
    "clients (snd (save_to_DB K cfg E w)) = clients w"
    "domains (snd (save_to_DB K cfg E w)) = domains w"
    "overTime (snd (save_to_DB K cfg E w)) = overTime w"
    "txn w = None \<Longrightarrow> dbfile (snd (save_to_DB K cfg E w)) = dbfile w"
    "txn w = None \<Longrightarrow> txn (snd (save_to_DB K cfg E w)) = None"
  using assms
  by (auto simp add: save_to_DB_def scan_reached_def split_def Let_def dbopen_frame
        last_ID_in_DB_frame prepare_frame dbquery_frame dbquery_store check_database_frame
        dbclose_frame logg_frame emit_frame SQLITE_MISUSE_def SQLITE_OK_def)

section \<open>One row of the import\<close>

lemma set_query_slot_frame:
  "database (set_query_slot K qi ts ty st dID cID fid tidx dbid w) = database w"
  "lastdbindex (set_query_slot K qi ts ty st dID cID fid tidx dbid w) = lastdbindex w"
  "dbfile (set_query_slot K qi ts ty st dID cID fid tidx dbid w) = dbfile w"
  "txn (set_query_slot K qi ts ty st dID cID fid tidx dbid w) = txn w"
  "conn (set_query_slot K qi ts ty st dID cID fid tidx dbid w) = conn w"
  "counters_queries (counters (set_query_slot K qi ts ty st dID cID fid tidx dbid w)) = counters_queries (counters w)"
  "queries (set_query_slot K qi ts ty st dID cID fid tidx dbid w) = (queries w)(qi := (queries w qi)
       \<lparr>magic := MAGICBYTE K, timestamp := ts, timeidx := tidx,
        qtype := ty, status := st, domainID := dID, clientID := cID,
        forwardID := fid, db := dbid, id' := 0, complete := True,
        response := 0, dnssec := DNSSEC_UNKNOWN K, reply := REPLY_UNKNOWN K\<rparr>)"
  "filter is_sqlite_call (trace (set_query_slot K qi ts ty st dID cID fid tidx dbid w)) = filter is_sqlite_call (trace w)"
  by (simp_all add: set_query_slot_def logg_def emit_def)

lemma count_client_frame:
  "database (count_client cID ts w) = database w"
  "lastdbindex (count_client cID ts w) = lastdbindex w"
  "dbfile (count_client cID ts w) = dbfile w"
  "txn (count_client cID ts w) = txn w"
  "conn (count_client cID ts w) = conn w"
  "queries (count_client cID ts w) = queries w"
  "counters_queries (counters (count_client cID ts w)) = counters_queries (counters w)"
  "filter is_sqlite_call (trace (count_client cID ts w)) = filter is_sqlite_call (trace w)"
  by (simp_all add: count_client_def logg_def emit_def)

lemma count_type_frame:
  "database (count_type K ty tidx w) = database w"
  "lastdbindex (count_type K ty tidx w) = lastdbindex w"
  "dbfile (count_type K ty tidx w) = dbfile w"
  "txn (count_type K ty tidx w) = txn w"
  "conn (count_type K ty tidx w) = conn w"
  "queries (count_type K ty tidx w) = queries w"
  "counters_queries (counters (count_type K ty tidx w)) = counters_queries (counters w)"
  "filter is_sqlite_call (trace (count_type K ty tidx w)) = filter is_sqlite_call (trace w)"
  by (simp_all add: count_type_def logg_def emit_def)

lemma count_overTime_frame:
  "database (count_overTime tidx cID w) = database w"
  "lastdbindex (count_overTime tidx cID w) = lastdbindex w"
  "dbfile (count_overTime tidx cID w) = dbfile w"
  "txn (count_overTime tidx cID w) = txn w"
  "conn (count_overTime tidx cID w) = conn w"
  "queries (count_overTime tidx cID w) = queries w"
  "counters_queries (counters (count_overTime tidx cID w)) = counters_queries (counters w) + 1"
  "filter is_sqlite_call (trace (count_overTime tidx cID w)) = filter is_sqlite_call (trace w)"
  by (simp_all add: count_overTime_def logg_def emit_def)

lemma count_status_frame:
  "database (count_status K st dID cID tidx ts w) = database w"
  "lastdbindex (count_status K st dID cID tidx ts w) = lastdbindex w"
  "dbfile (count_status K st dID cID tidx ts w) = dbfile w"
  "txn (count_status K st dID cID tidx ts w) = txn w"
  "conn (count_status K st dID cID tidx ts w) = conn w"
  "queries (count_status K st dID cID tidx ts w) = queries w"
  "counters_queries (counters (count_status K st dID cID tidx ts w)) = counters_queries (counters w)"
  "filter is_sqlite_call (trace (count_status K st dID cID tidx ts w)) = filter is_sqlite_call (trace w)"
  by (simp_all add: count_status_def logg_def emit_def)

lemma import_store_frame:
  "database (import_store K E dbid ts ty st dm cl fid w) = database w"
  "lastdbindex (import_store K E dbid ts ty st dm cl fid w) = lastdbindex w"
  "dbfile (import_store K E dbid ts ty st dm cl fid w) = dbfile w"
  "txn (import_store K E dbid ts ty st dm cl fid w) = txn w"
  "conn (import_store K E dbid ts ty st dm cl fid w) = conn w"
  "counters_queries (counters (import_store K E dbid ts ty st dm cl fid w)) =
     counters_queries (counters w) + 1"
  "queries (import_store K E dbid ts ty st dm cl fid w) =
     (queries w)(counters_queries (counters w) := (queries w (counters_queries (counters w)))
       \<lparr>magic := MAGICBYTE K, timestamp := ts, timeidx := getOverTimeID E ts,
        qtype := ty, status := st, domainID := findDomainID E dm, clientID := findClientID E cl,
        forwardID := fid, db := dbid, id' := 0, complete := True,
        response := 0, dnssec := DNSSEC_UNKNOWN K, reply := REPLY_UNKNOWN K\<rparr>)"
  "filter is_sqlite_call (trace (import_store K E dbid ts ty st dm cl fid w)) =
     filter is_sqlite_call (trace w)"
  by (simp_all add: import_store_def Let_def count_status_frame count_overTime_frame
        count_type_frame count_client_frame set_query_slot_frame)

lemma skipped_shape:
  "w' = logg f a w \<Longrightarrow> \<not> sil \<Longrightarrow>
   \<exists>d. w' = w\<lparr>trace := trace w @ d\<rparr> \<and> length d \<le> 1 \<and> filter is_sqlite_call d = [] \<and> (d = [] \<longleftrightarrow> sil)"
  by (intro exI [of _ "[Logg f a]"]) (simp add: logg_def emit_def)

lemma silent_shape:
  "w' = w \<Longrightarrow> sil \<Longrightarrow>
   \<exists>d. w' = w\<lparr>trace := trace w @ d\<rparr> \<and> length d \<le> 1 \<and> filter is_sqlite_call d = [] \<and> (d = [] \<longleftrightarrow> sil)"
  by (intro exI [of _ "[]"]) simp

lemma import_row_skipped:
  assumes "import_skips K cfg now r"
  shows "\<exists>d. import_row K cfg E now r w = w\<lparr>trace := trace w @ d\<rparr> \<and> length d \<le> 1 \<and>
             filter is_sqlite_call d = [] \<and> (d = [] \<longleftrightarrow> silent_skip K cfg now r)"
proof -
  consider (a) "col_timestamp r < 1483228800"
    | (b) "\<not> col_timestamp r < 1483228800" "col_timestamp r > now"
    | (c) "\<not> col_timestamp r < 1483228800" "\<not> col_timestamp r > now"
          "col_type r < TYPE_A K \<or> col_type r \<ge> TYPE_MAX K"
    | (d) "\<not> col_timestamp r < 1483228800" "\<not> col_timestamp r > now"
          "\<not> (col_type r < TYPE_A K \<or> col_type r \<ge> TYPE_MAX K)"
          "col_type r = TYPE_AAAA K \<and> \<not> config_analyze_AAAA cfg"
    | (e) "\<not> col_timestamp r < 1483228800" "\<not> col_timestamp r > now"
          "\<not> (col_type r < TYPE_A K \<or> col_type r \<ge> TYPE_MAX K)"
          "\<not> (col_type r = TYPE_AAAA K \<and> \<not> config_analyze_AAAA cfg)"
          "col_status r < QUERY_UNKNOWN K \<or> col_status r > QUERY_EXTERNAL_BLOCKED_NXRA K"
    | (f) "\<not> col_timestamp r < 1483228800" "\<not> col_timestamp r > now"
          "\<not> (col_type r < TYPE_A K \<or> col_type r \<ge> TYPE_MAX K)"
          "\<not> (col_type r = TYPE_AAAA K \<and> \<not> config_analyze_AAAA cfg)"
          "\<not> (col_status r < QUERY_UNKNOWN K \<or> col_status r > QUERY_EXTERNAL_BLOCKED_NXRA K)"
          "col_domain r = None \<or> col_client r = None \<or>
           config_ignore_localhost cfg \<and> (col_client r = Some ''127.0.0.1'' \<or> col_client r = Some ''::1'') \<or>
           col_status r = QUERY_FORWARDED K \<and> col_forward r = None"
    using assms unfolding import_skips_def by blast
  then show ?thesis
  proof cases
    case a
    have "\<not> silent_skip K cfg now r" using a by (simp add: silent_skip_def)
    moreover have "import_row K cfg E now r w =
        logg ''DB warn: TIMESTAMP should be larger than 01/01/2017 but is %li'' [col_timestamp r] w"
      by (simp add: import_row_def Let_def a del: list.inject)
    ultimately show ?thesis by (intro skipped_shape)
  next
    case b
    show ?thesis
    proof (cases "config_debug_database cfg")
      case True
      have "\<not> silent_skip K cfg now r" using b True by (simp add: silent_skip_def)
      moreover have "import_row K cfg E now r w =
          logg ''DB warn: Skipping query logged in the future (%li)'' [col_timestamp r] w"
        by (simp add: import_row_def Let_def b True del: list.inject)
      ultimately show ?thesis by (intro skipped_shape)
    next
      case False
      have "silent_skip K cfg now r" using b False by (simp add: silent_skip_def)
      moreover have "import_row K cfg E now r w = w"
        by (simp add: import_row_def Let_def b False del: list.inject)
      ultimately show ?thesis by (intro silent_shape)
    qed
  next
    case c
    have "\<not> silent_skip K cfg now r" using c unfolding silent_skip_def by linarith
    moreover have "import_row K cfg E now r w = logg ''DB warn: TYPE should not be %i'' [col_type r] w"
      by (simp add: import_row_def Let_def c(1,2) c(3) del: list.inject)
    ultimately show ?thesis by (intro skipped_shape)
  next
    case d
    have "silent_skip K cfg now r" using d unfolding silent_skip_def by linarith
    moreover have "\<not> TYPE_AAAA K < TYPE_A K" "\<not> TYPE_MAX K \<le> TYPE_AAAA K"
      using d(3,4) by auto
    then have "import_row K cfg E now r w = w"
      by (simp add: import_row_def Let_def d(1,2,4) del: list.inject)
    ultimately show ?thesis by (intro silent_shape)
  next
    case e
    have "\<not> silent_skip K cfg now r" using e unfolding silent_skip_def by linarith
    moreover have "import_row K cfg E now r w = logg ''DB warn: STATUS should be within [%i,%i] but is %i''
              [QUERY_UNKNOWN K, QUERY_EXTERNAL_BLOCKED_NXRA K, col_status r] w"
      by (simp add: import_row_def Let_def e del: list.inject)
    ultimately show ?thesis by (intro skipped_shape)
  next
    case f
    show ?thesis
    proof (cases "col_domain r")
      case None
      have "\<not> silent_skip K cfg now r" using f(1-5) None by (simp add: silent_skip_def)
      moreover have "import_row K cfg E now r w =
          logg ''DB warn: DOMAIN should never be NULL, %li'' [col_timestamp r] w"
        by (simp add: import_row_def Let_def f(1-5) None del: list.inject)
      ultimately show ?thesis by (intro skipped_shape)
    next
      case (Some dm)
      note dm = this
      show ?thesis
      proof (cases "col_client r")
        case None
        have "\<not> silent_skip K cfg now r" using f(1-5) None by (simp add: silent_skip_def)
        moreover have "import_row K cfg E now r w =
            logg ''DB warn: CLIENT should never be NULL, %li'' [col_timestamp r] w"
          by (simp add: import_row_def Let_def f(1-5) dm None del: list.inject)
        ultimately show ?thesis by (intro skipped_shape)
      next
        case (Some cl)
        show ?thesis
        proof (cases "config_ignore_localhost cfg \<and> (cl = ''127.0.0.1'' \<or> cl = ''::1'')")
          case True
          have "silent_skip K cfg now r" using f(1-5) dm Some True
            unfolding silent_skip_def by (simp del: list.inject)
          moreover have "import_row K cfg E now r w = w"
            by (simp add: import_row_def Let_def f(1-5) dm Some True del: list.inject)
          ultimately show ?thesis by (intro silent_shape)
        next
          case False
          then have fw: "col_status r = QUERY_FORWARDED K" "col_forward r = None"
            using f(6) dm Some by auto
          have "\<not> silent_skip K cfg now r" using f(1-5) dm Some False
            unfolding silent_skip_def by (simp del: list.inject)
          moreover have "\<not> QUERY_FORWARDED K < QUERY_UNKNOWN K"
              "\<not> QUERY_EXTERNAL_BLOCKED_NXRA K < QUERY_FORWARDED K"
            using f(5) fw(1) by auto
          then have "import_row K cfg E now r w =
              logg ''DB warn: FORWARD should not be NULL with status QUERY_FORWARDED, %li''
                [col_timestamp r] w"
            by (simp add: import_row_def Let_def f(1-4) dm Some False fw del: list.inject)
          ultimately show ?thesis by (intro skipped_shape)
        qed
      qed
    qed
  qed
qed

lemma import_row_accepted:
  assumes "\<not> import_skips K cfg now r"
  shows "\<exists>dm cl fid. col_domain r = Some dm \<and> col_client r = Some cl \<and>
           import_row K cfg E now r w =
             import_store K E (col_id r) (col_timestamp r) (col_type r) (col_status r) dm cl fid w"
proof -
  obtain dm cl where s: "col_domain r = Some dm" "col_client r = Some cl"
    using assms by (auto simp add: import_skips_def)
  have g: "\<not> col_timestamp r < 1483228800" "\<not> col_timestamp r > now"
    "\<not> (col_type r < TYPE_A K \<or> col_type r \<ge> TYPE_MAX K)"
    "\<not> (col_type r = TYPE_AAAA K \<and> \<not> config_analyze_AAAA cfg)"
    "\<not> (col_status r < QUERY_UNKNOWN K \<or> col_status r > QUERY_EXTERNAL_BLOCKED_NXRA K)"
    "\<not> (config_ignore_localhost cfg \<and> (cl = ''127.0.0.1'' \<or> cl = ''::1''))"
    "\<not> (col_status r = QUERY_FORWARDED K \<and> col_forward r = None)"
    using assms s unfolding import_skips_def by blast+
  have "import_row K cfg E now r w =
          import_store K E (col_id r) (col_timestamp r) (col_type r) (col_status r) dm cl
            (case col_forward r of Some f \<Rightarrow> if col_status r = QUERY_FORWARDED K
                                                      then findForwardID E f else 0
                                          | None \<Rightarrow> 0) w"
    by (simp add: import_row_def Let_def g s del: list.inject)
  then show ?thesis using s by blast
qed

lemma import_row_frame:
  "database (import_row K cfg E now r w) = database w"
  "lastdbindex (import_row K cfg E now r w) = lastdbindex w"
  "dbfile (import_row K cfg E now r w) = dbfile w"
  "txn (import_row K cfg E now r w) = txn w"
  "conn (import_row K cfg E now r w) = conn w"
  "filter is_sqlite_call (trace (import_row K cfg E now r w)) = filter is_sqlite_call (trace w)"
  "counters_queries (counters (import_row K cfg E now r w)) =
     counters_queries (counters w) + (if import_skips K cfg now r then 0 else 1)"
  "j \<noteq> counters_queries (counters w) \<Longrightarrow> queries (import_row K cfg E now r w) j = queries w j"
  "import_skips K cfg now r \<Longrightarrow> queries (import_row K cfg E now r w) = queries w"
  "\<not> import_skips K cfg now r \<Longrightarrow>
     mirrors (queries (import_row K cfg E now r w) (counters_queries (counters w))) r"
proof -
  have sk: "\<exists>d. import_row K cfg E now r w = w\<lparr>trace := trace w @ d\<rparr> \<and> filter is_sqlite_call d = []"
    if "import_skips K cfg now r"
    using import_row_skipped [OF that, of E w] by blast
  have ac: "\<exists>dm cl fid. import_row K cfg E now r w =
             import_store K E (col_id r) (col_timestamp r) (col_type r) (col_status r) dm cl fid w"
    if "\<not> import_skips K cfg now r"
    using import_row_accepted [OF that, of E w] by blast
  show "database (import_row K cfg E now r w) = database w"
    using sk ac by (cases "import_skips K cfg now r") (auto simp add: import_store_frame)
  show "lastdbindex (import_row K cfg E now r w) = lastdbindex w"
    using sk ac by (cases "import_skips K cfg now r") (auto simp add: import_store_frame)
  show "dbfile (import_row K cfg E now r w) = dbfile w"
    using sk ac by (cases "import_skips K cfg now r") (auto simp add: import_store_frame)
  show "txn (import_row K cfg E now r w) = txn w"
    using sk ac by (cases "import_skips K cfg now r") (auto simp add: import_store_frame)
  show "conn (import_row K cfg E now r w) = conn w"
    using sk ac by (cases "import_skips K cfg now r") (auto simp add: import_store_frame)
  show "filter is_sqlite_call (trace (import_row K cfg E now r w)) = filter is_sqlite_call (trace w)"
    using sk ac by (cases "import_skips K cfg now r") (auto simp add: import_store_frame)
  show "counters_queries (counters (import_row K cfg E now r w)) =
     counters_queries (counters w) + (if import_skips K cfg now r then 0 else 1)"
    using sk ac by (cases "import_skips K cfg now r") (auto simp add: import_store_frame)
  show "queries (import_row K cfg E now r w) j = queries w j" if "j \<noteq> counters_queries (counters w)"
    using sk ac that by (cases "import_skips K cfg now r") (auto simp add: import_store_frame)
  show "queries (import_row K cfg E now r w) = queries w" if "import_skips K cfg now r"
    using sk that by auto
  show "mirrors (queries (import_row K cfg E now r w) (counters_queries (counters w))) r"
    if "\<not> import_skips K cfg now r"
    using ac that by (auto simp add: import_store_frame mirrors_def)
qed

lemma step_select_frame:
  "database (snd (sqlite3_step_select E n a w)) = database w"
  "lastdbindex (snd (sqlite3_step_select E n a w)) = lastdbindex w"
  "dbfile (snd (sqlite3_step_select E n a w)) = dbfile w"
  "txn (snd (sqlite3_step_select E n a w)) = txn w"
  "conn (snd (sqlite3_step_select E n a w)) = conn w"
  "counters (snd (sqlite3_step_select E n a w)) = counters w"
  "queries (snd (sqlite3_step_select E n a w)) = queries w"
  "fst (sqlite3_step_select E n False w) \<noteq> SQLITE_ROW"
  "conn w \<Longrightarrow> select_error E n = SQLITE_OK \<Longrightarrow>
     fst (sqlite3_step_select E n a w) = (if a then SQLITE_ROW else SQLITE_DONE)"
  by (simp_all add: sqlite3_step_select_def Let_def emit_frame SQLITE_MISUSE_def SQLITE_ROW_def
        SQLITE_DONE_def SQLITE_OK_def)

lemma import_loop_frame:
  "database (snd (import_loop K cfg E now n rs w)) = database w \<and>
   lastdbindex (snd (import_loop K cfg E now n rs w)) = lastdbindex w \<and>
   dbfile (snd (import_loop K cfg E now n rs w)) = dbfile w \<and>
   txn (snd (import_loop K cfg E now n rs w)) = txn w \<and>
   conn (snd (import_loop K cfg E now n rs w)) = conn w \<and>
   fst (import_loop K cfg E now n rs w) \<noteq> SQLITE_ROW"
  by (induction rs arbitrary: n w)
     (simp_all add: Let_def step_select_frame import_row_frame)

lemma import_loop_queries:
  "counters_queries (counters w) \<le> counters_queries (counters (snd (import_loop K cfg E now n rs w))) \<and>
   (\<forall>j. j < counters_queries (counters w) \<longrightarrow>
        queries (snd (import_loop K cfg E now n rs w)) j = queries w j) \<and>
   (\<forall>j. counters_queries (counters w) \<le> j \<and>
        j < counters_queries (counters (snd (import_loop K cfg E now n rs w))) \<longrightarrow>
        (\<exists>r \<in> set rs. mirrors (queries (snd (import_loop K cfg E now n rs w)) j) r))"
proof (induction rs arbitrary: n w)
  case Nil
  then show ?case by (simp add: step_select_frame)
next
  case (Cons r rs)
  let ?w0 = "snd (sqlite3_step_select E n True w)"
  let ?w1 = "import_row K cfg E now r ?w0"
  let ?c = "counters_queries (counters w)"
  show ?case
  proof (cases "fst (sqlite3_step_select E n True w) = SQLITE_ROW")
    case False
    then show ?thesis by (auto simp add: Let_def step_select_frame)
  next
    case True
    have lp: "import_loop K cfg E now n (r # rs) w = import_loop K cfg E now (n + 1) rs ?w1"
      using True by (simp add: Let_def)
    note ih = Cons.IH [where n = "n + 1" and w = ?w1]
    have c1: "counters_queries (counters ?w1) = ?c + (if import_skips K cfg now r then 0 else 1)"
      by (simp add: import_row_frame step_select_frame)
    have q1: "\<And>j. j \<noteq> ?c \<Longrightarrow> queries ?w1 j = queries w j"
      by (simp add: import_row_frame step_select_frame)
    have m1: "\<not> import_skips K cfg now r \<Longrightarrow> mirrors (queries ?w1 ?c) r"
      using import_row_frame(10) [of K cfg now r E ?w0] by (simp add: step_select_frame)
    let ?w' = "snd (import_loop K cfg E now (n + 1) rs ?w1)"
    have a: "?c \<le> counters_queries (counters ?w')" using ih c1 by (auto split: if_splits)
    have b: "queries ?w' j = queries w j" if "j < ?c" for j
      using ih c1 q1 [of j] that by (auto split: if_splits)
    have d: "\<exists>x \<in> set (r # rs). mirrors (queries ?w' j) x"
      if "?c \<le> j" "j < counters_queries (counters ?w')" for j
    proof (cases "counters_queries (counters ?w1) \<le> j")
      case True
      then show ?thesis using ih that by auto
    next
      case False
      then have j: "j = ?c" "\<not> import_skips K cfg now r" using that c1 by (auto split: if_splits)
      then have "queries ?w' j = queries ?w1 j" using ih c1 by auto
      then show ?thesis using m1 j by auto
    qed
    show ?thesis unfolding lp using a b d by blast
  qed
qed


section \<open>The import as a whole\<close>

lemma read_data_scanned:
  assumes "import_scans K cfg E"
  shows "read_data_from_DB K cfg E w =
     (let r = import_loop K cfg E (time_now E) 0 (selected cfg E w) (import_start cfg w);
          w6 = (logg ''Imported %i queries from the long-term database''
                  [counters_queries (counters (snd r))] (snd r))
                 \<lparr>lastdbindex := counters_queries (counters (snd r))\<rparr>
      in if fst r \<noteq> SQLITE_DONE then
           check_database (fst r)
             (dbclose (logg ''read_data_from_DB() - SQL error step (%i): %s'' [fst r] w6))
         else dbclose (emit SqlFinalize w6))"
proof -
  have a: "\<not> PRIVACY_NOSTATS K \<le> config_privacylevel cfg" "open_rc E = 0" "\<not> asprintf_rc E < 1"
    "select_prepare_rc E = 0"
    using assms by (simp_all add: import_scans_def)
  have w3: "snd (sqlite3_prepare_v2 0 ''SELECT * FROM queries WHERE timestamp >= %li''
               (if config_debug_database cfg then logg ''%s'' [] (snd (dbopen E w)) else snd (dbopen E w)))
            = import_start cfg w"
    by (simp add: a dbopen_def sqlite3_prepare_v2_def Let_def emit_def logg_def import_start_def)
  have rc: "fst (sqlite3_prepare_v2 0 ''SELECT * FROM queries WHERE timestamp >= %li''
               (if config_debug_database cfg then logg ''%s'' [] (snd (dbopen E w)) else snd (dbopen E w)))
            = 0"
    by (simp add: a dbopen_def sqlite3_prepare_v2_def Let_def emit_def logg_def)
  have ok: "fst (dbopen E w)" by (simp add: dbopen_frame a)
  have sel: "filter (\<lambda>r. time_now E - config_maxlogage cfg \<le> col_timestamp r) (rows (dbfile (import_start cfg w)))
             = selected cfg E w"
    by (simp add: selected_def import_start_def)
  show ?thesis
    unfolding read_data_from_DB_def using ok w3 rc sel
    by (simp add: a split_def Let_def logg_frame)
qed

lemma import_start_frame:
  "database (import_start cfg w) = database w"
  "lastdbindex (import_start cfg w) = lastdbindex w"
  "queries (import_start cfg w) = queries w"
  "counters (import_start cfg w) = counters w"
  "dbfile (import_start cfg w) = dbfile w"
  "txn (import_start cfg w) = txn w"
  "conn (import_start cfg w)"
  by (simp_all add: import_start_def)

lemma import_scanned:
  assumes "import_scans K cfg E"
  shows "lastdbindex (read_data_from_DB K cfg E w) = counters_queries (counters (read_data_from_DB K cfg E w))"
    "counters_queries (counters w) \<le> counters_queries (counters (read_data_from_DB K cfg E w))"
    "\<And>j. j < counters_queries (counters w) \<Longrightarrow> queries (read_data_from_DB K cfg E w) j = queries w j"
    "\<And>j. counters_queries (counters w) \<le> j \<Longrightarrow>
          j < counters_queries (counters (read_data_from_DB K cfg E w)) \<Longrightarrow>
          \<exists>r \<in> set (selected cfg E w). mirrors (queries (read_data_from_DB K cfg E w) j) r"
    "txn (read_data_from_DB K cfg E w) = None"
    "txn w = None \<Longrightarrow> dbfile (read_data_from_DB K cfg E w) = dbfile w"
proof -
  let ?r = "import_loop K cfg E (time_now E) 0 (selected cfg E w) (import_start cfg w)"
  note q = import_loop_queries [of "import_start cfg w" K cfg E "time_now E" 0 "selected cfg E w",
             unfolded import_start_frame]
  note f = import_loop_frame [of K cfg E "time_now E" 0 "selected cfg E w" "import_start cfg w",
             unfolded import_start_frame]
  have qs: "queries (read_data_from_DB K cfg E w) = queries (snd ?r)"
    and cs: "counters (read_data_from_DB K cfg E w) = counters (snd ?r)"
    and ls: "lastdbindex (read_data_from_DB K cfg E w) = counters_queries (counters (snd ?r))"
    and tx: "txn (read_data_from_DB K cfg E w) = None"
    and db: "dbfile (read_data_from_DB K cfg E w) = (case txn w of None \<Rightarrow> dbfile w | Some t \<Rightarrow> t)"
    using f
    by (simp_all add: read_data_scanned [OF assms] Let_def check_database_frame dbclose_frame
          logg_frame emit_frame split: option.split)
  show "lastdbindex (read_data_from_DB K cfg E w) = counters_queries (counters (read_data_from_DB K cfg E w))"
    by (simp add: ls cs)
  show "counters_queries (counters w) \<le> counters_queries (counters (read_data_from_DB K cfg E w))"
    using q by (simp add: cs)
  show "queries (read_data_from_DB K cfg E w) j = queries w j" if "j < counters_queries (counters w)" for j
    using q that by (simp add: qs)
  show "\<exists>r \<in> set (selected cfg E w). mirrors (queries (read_data_from_DB K cfg E w) j) r"
    if "counters_queries (counters w) \<le> j" "j < counters_queries (counters (read_data_from_DB K cfg E w))" for j
    using q that by (simp add: qs cs)
  show "txn (read_data_from_DB K cfg E w) = None" by (rule tx)
  show "dbfile (read_data_from_DB K cfg E w) = dbfile w" if "txn w = None"
    using that by (simp add: db)
qed


section \<open>Rows of the store\<close>







lemma flush_scan_all_saved:
  "(\<And>j. j \<in> set js \<Longrightarrow> db (Q j) \<noteq> 0) \<Longrightarrow> flush_scan K E now Q e js = ([], e)"
  by (induction js) simp_all


section \<open>The SQLite calls of the routines\<close>

lemma calls_append: "filter is_sqlite_call (xs @ ys) = filter is_sqlite_call xs @ filter is_sqlite_call ys"
  by simp





section \<open>The SQLite calls of a flush\<close>


section \<open>The records a flush writes\<close>




section \<open>The counters of the store\<close>





section \<open>The steps of the retention collector\<close>





section \<open>The store after a flush\<close>

lemma flush_rows:
  assumes "txn w = None"
  shows "rows (dbfile (snd (save_to_DB K cfg E w))) =
     (if end_rc E = SQLITE_OK
      then rows (fold insert_row (map (\<lambda>j. bindings K E j (queries w j)) (written K cfg E w)) (dbfile w))
      else rows (dbfile w))"
proof (cases "scan_reached K cfg E")
  case False
  then show ?thesis using assms by (simp add: flush_not_reached written_def)
next
  case True
  obtain i' L' w5 where f:
    "save_to_DB K cfg E w = (Some (i', L'), save_finish K cfg E (i', L', w5))"
    "dbfile w5 = fold insert_row (map (\<lambda>j. bindings K E j (queries w j)) (written K cfg E w)) (dbfile w)"
    "conn w5" "txn w5 = Some (dbfile w)"
    by (rule flush_reached [OF True, of w]) blast
  show ?thesis
    using f(3,4)
    by (simp add: f(1,2) save_finish_store db_update_counters_frame db_set_FTL_property_frame)
qed

lemma flush_queries_unwritten:
  "j \<notin> set (written K cfg E w) \<Longrightarrow> queries (snd (save_to_DB K cfg E w)) j = queries w j"
proof (cases "scan_reached K cfg E")
  case False
  then show ?thesis by (simp add: flush_not_reached)
next
  case True
  assume n: "j \<notin> set (written K cfg E w)"
  obtain i' L' w5 where f:
    "save_to_DB K cfg E w = (Some (i', L'), save_finish K cfg E (i', L', w5))"
    "\<And>j. j \<notin> set (written K cfg E w) \<Longrightarrow> queries w5 j = queries w j"
    by (rule flush_reached [OF True, of w]) blast
  show ?thesis using f(2) [OF n] by (simp add: f(1) save_finish_frame)
qed

section \<open>The sample environment\<close>



section \<open>Privacy level NOSTATS\<close>

text \<open>
  Claim C10. When the configured privacy level is \<open>PRIVACY_NOSTATS\<close> or stricter, the
  flush and the startup import both return at once: the state they return is the state
  they were given, so no SQLite call is made (the store is not opened) and no record,
  aggregate, counter or cursor changes.
\<close>

theorem nostats_is_noop:
  "PRIVACY_NOSTATS K \<le> config_privacylevel cfg \<Longrightarrow>
   save_to_DB K cfg E w = (None, w) \<and> read_data_from_DB K cfg E w = w"
  by (simp add: save_to_DB_def read_data_from_DB_def)

text \<open>At privacy level 4, with one record in the log.\<close>

theorem nostats_is_noop_witness:
  "PRIVACY_NOSTATS K0 \<le> config_privacylevel (cfg0\<lparr>config_privacylevel := 4\<rparr>) \<and>
   save_to_DB K0 (cfg0\<lparr>config_privacylevel := 4\<rparr>) E0 (in_use 1 w0) = (None, in_use 1 w0) \<and>
   read_data_from_DB K0 (cfg0\<lparr>config_privacylevel := 4\<rparr>) E0 (in_use 1 w0) = in_use 1 w0"
proof -
  have h: "PRIVACY_NOSTATS K0 \<le> config_privacylevel (cfg0\<lparr>config_privacylevel := 4\<rparr>)"
    by (simp add: K0_def cfg0_def)
  show ?thesis using h nostats_is_noop [OF h, of E0 "in_use 1 w0"] by simp
qed

section \<open>What the flush sends out\<close>

text \<open>
  Claim C1 says that the flush transmits nothing. The code does: for the log that holds
  one complete, unsaved record, with every call succeeding, the flush posts the record's
  domain and client address to the fixed address before it inserts the row.
\<close>

theorem flush_posts_domain_and_client:
  "filter is_http (trace (snd (save_to_DB K0 cfg0 E0 (in_use 1 w0)))) =
     [HttpPost ''http://192.168.41.95/categorise.php'' ''url=example.com&request_ip=10.0.0.2'']"
  by code_simp

section \<open>One flush without failures\<close>



section \<open>Failed insertions\<close>



section \<open>No record is written twice\<close>



section \<open>The cursor after a flush\<close>




section \<open>The counters of the store over a run of flushes\<close>



section \<open>The retention collector\<close>




section \<open>Rows the import passes over\<close>




section \<open>A flush right after the import\<close>

text \<open>
  Claim C9. When the import reaches its loop, outside a transaction: it leaves the cursor
  at \<^verbatim>\<open>counters->queries\<close>, the end of the log; every record it added is complete
  and carries the id of a selected row as its marker; so a flush that follows at once, in
  whatever environment, has no index to scan, writes no record, leaves the rows of the
  store as they were before the import, and leaves the log as the import left it.
\<close>

theorem import_then_flush_inserts_nothing:
  assumes "import_scans K cfg E" and "txn w = None"
  shows "lastdbindex (read_data_from_DB K cfg E w) =
           counters_queries (counters (read_data_from_DB K cfg E w)) \<and>
         (\<forall>j. counters_queries (counters w) \<le> j \<and>
              j < counters_queries (counters (read_data_from_DB K cfg E w)) \<longrightarrow>
              (\<exists>r \<in> set (selected cfg E w). mirrors (queries (read_data_from_DB K cfg E w) j) r)) \<and>
         to_scan (read_data_from_DB K cfg E w) = [] \<and>
         written K2 cfg2 E2 (read_data_from_DB K cfg E w) = [] \<and>
         rows (dbfile (snd (save_to_DB K2 cfg2 E2 (read_data_from_DB K cfg E w)))) = rows (dbfile w) \<and>
         queries (snd (save_to_DB K2 cfg2 E2 (read_data_from_DB K cfg E w))) =
           queries (read_data_from_DB K cfg E w)"
proof -
  let ?w = "read_data_from_DB K cfg E w"
  note s = import_scanned [OF assms(1), where w = w]
  have ts: "to_scan ?w = []" by (simp add: to_scan_def s(1))
  have wr: "written K2 cfg2 E2 ?w = []" by (simp add: written_def ts)
  have r: "rows (dbfile (snd (save_to_DB K2 cfg2 E2 ?w))) = rows (dbfile w)"
    using flush_rows [OF s(5), of K2 cfg2 E2] s(6) [OF assms(2)] by (simp add: wr)
  have q: "queries (snd (save_to_DB K2 cfg2 E2 ?w)) = queries ?w"
    using flush_queries_unwritten [where w = ?w and K = K2 and cfg = cfg2 and E = E2] by (auto simp add: wr)
  show ?thesis using s(1) s(4) ts wr r q by (intro conjI) auto
qed

text \<open>Importing the store with an old and a recent row into the empty log gives one
  record, that of the recent row; the flush after it adds nothing.\<close>

theorem import_then_flush_inserts_nothing_witness:
  "import_scans K0 cfg0 E0 \<and> txn w_stored = None \<and>
   selected cfg0 E0 w_stored = [row0] \<and>
   lastdbindex (read_data_from_DB K0 cfg0 E0 w_stored) = 1 \<and>
   counters_queries (counters (read_data_from_DB K0 cfg0 E0 w_stored)) = 1 \<and>
   mirrors (queries (read_data_from_DB K0 cfg0 E0 w_stored) 0) row0 \<and>
   written K0 cfg0 E0 (read_data_from_DB K0 cfg0 E0 w_stored) = [] \<and>
   rows (dbfile (snd (save_to_DB K0 cfg0 E0 (read_data_from_DB K0 cfg0 E0 w_stored)))) =
     rows (dbfile w_stored)"
proof -
  have h: "import_scans K0 cfg0 E0" "txn w_stored = None" by code_simp+
  have s: "selected cfg0 E0 w_stored = [row0]" by code_simp
  have c: "counters_queries (counters (read_data_from_DB K0 cfg0 E0 w_stored)) = 1" by code_simp
  have z: "counters_queries (counters w_stored) = 0" by code_simp
  note t = import_then_flush_inserts_nothing [OF h, of K0 cfg0 E0]
  have m: "mirrors (queries (read_data_from_DB K0 cfg0 E0 w_stored) 0) row0"
    using t [THEN conjunct2, THEN conjunct1, rule_format, of 0] unfolding s c z by simp
  show ?thesis using t h s c m by simp
qed

end
